theory Spec2Isabelle
  imports Main "HOL-Library.Word" "HOL-Library.Monad_Syntax"
begin

unbundle bit_operations_syntax

section \<open>Data model (types.ts)\<close>

text \<open>
  The interfaces of \<^verbatim>\<open>types.ts\<close>. An optional field (\<^verbatim>\<open>storyboardImageUrl?: string\<close>) is an
  \<open>option\<close>. The field \<^verbatim>\<open>id\<close> of a scene is written \<open>id_scene\<close> and the field \<^verbatim>\<open>text\<close> of a
  chat message \<open>text_msg\<close>, because \<open>id\<close> is a constant of HOL and \<open>text\<close> a keyword.
\<close>

record Scene =
  id_scene :: string
  order :: int
  description :: string
  dialogue :: string
  storyboardImageUrl :: "string option"
  storyboardPrompt :: "string option"
  videoUrl :: "string option"
  audioUrl :: "string option"
  isApproved :: bool

datatype ImageSize = Size1K | Size2K | Size4K

datatype Role = RoleUser | RoleModel

record ChatMessage =
  role :: Role
  text_msg :: string

record Project =
  title :: string
  script :: string
  scenes :: "Scene list"

section \<open>Exceptions and promises\<close>

text \<open>
  A thrown value is an \<^verbatim>\<open>Error\<close> object of JavaScript: its class and its message. Every throw
  of the service layer is \<^verbatim>\<open>new Error(...)\<close>; \<^verbatim>\<open>JSON.parse\<close> throws a \<^verbatim>\<open>SyntaxError\<close>, a property
  read on \<^verbatim>\<open>undefined\<close> a \<^verbatim>\<open>TypeError\<close>, a write outside a \<^verbatim>\<open>DataView\<close> a \<^verbatim>\<open>RangeError\<close>.
  The message may be the empty string.
\<close>

datatype exn = Error string | TypeError string | RangeError string | SyntaxError string

fun message :: "exn \<Rightarrow> string" where
  "message (Error m) = m"
| "message (TypeError m) = m"
| "message (RangeError m) = m"
| "message (SyntaxError m) = m"

text \<open>
  The outcome of an awaited promise: fulfilled with a value, rejected with an exception, or
  never settled (the video poll loop has no bound, and no request has a timeout).
\<close>

datatype 'a promise = Fulfilled 'a | Rejected exn | Pending

text \<open>JavaScript's \<^verbatim>\<open>a || b\<close> on an optional string: the empty string and \<^verbatim>\<open>undefined\<close> are falsy.\<close>

fun truthy :: "string option \<Rightarrow> bool" where
  "truthy None = False"
| "truthy (Some s) = (s \<noteq> [])"

definition or_else :: "string option \<Rightarrow> string \<Rightarrow> string" where
  "or_else a b = (case a of None \<Rightarrow> b | Some s \<Rightarrow> if s = [] then b else s)"

section \<open>The audio container encoder (services/geminiService.ts)\<close>

type_synonym byte = "8 word"

text \<open>
  \<^verbatim>\<open>DataView.setUint32(offset, value, littleEndian)\<close>: the value is reduced modulo \<open>2^32\<close>
  (\<^verbatim>\<open>ToUint32\<close>; here the conversion \<open>of_nat\<close> into \<open>32 word\<close>), its four bytes are stored from
  \<open>offset\<close> on, lowest byte first when \<open>littleEndian\<close>, and a write that does not fit the
  buffer throws a \<^verbatim>\<open>RangeError\<close> (\<open>None\<close>).
\<close>

definition store :: "byte list \<Rightarrow> nat \<Rightarrow> byte list \<Rightarrow> byte list option" where
  "store buf offset bs =
     (if offset + length bs \<le> length buf
      then Some (take offset buf @ bs @ drop (offset + length bs) buf)
      else None)"

definition bytes32 :: "32 word \<Rightarrow> byte list" where
  "bytes32 w = [ucast (drop_bit 24 w), ucast (drop_bit 16 w), ucast (drop_bit 8 w), ucast w]"

definition bytes16 :: "16 word \<Rightarrow> byte list" where
  "bytes16 w = [ucast (drop_bit 8 w), ucast w]"

definition setUint32 :: "byte list \<Rightarrow> nat \<Rightarrow> nat \<Rightarrow> bool \<Rightarrow> byte list option" where
  "setUint32 view offset v littleEndian =
     store view offset (if littleEndian then rev (bytes32 (of_nat v)) else bytes32 (of_nat v))"

definition setUint16 :: "byte list \<Rightarrow> nat \<Rightarrow> nat \<Rightarrow> bool \<Rightarrow> byte list option" where
  "setUint16 view offset v littleEndian =
     store view offset (if littleEndian then rev (bytes16 (of_nat v)) else bytes16 (of_nat v))"

text \<open>
  Numbers of JavaScript are IEEE 754 doubles, with 53 bits of mantissa: a sum of two whole
  numbers is the double nearest to the exact sum, and of two doubles equally near the one
  with the even mantissa. \<open>excess_bits x\<close> is the number of low bits of \<open>x\<close> beyond the 53 a
  double keeps, and \<open>double_of_nat x\<close> the double nearest to \<open>x\<close>. (A length is far below the
  largest double, so no sum here is infinite.)
\<close>

function excess_bits :: "nat \<Rightarrow> nat" where
  "excess_bits x = (if x < 2 ^ 53 then 0 else Suc (excess_bits (x div 2)))"
  by pat_completeness auto
termination
  by (relation "measure (\<lambda>x. x)") auto

declare excess_bits.simps [simp del]

definition double_of_nat :: "nat \<Rightarrow> nat" where
  "double_of_nat x =
     (let e = excess_bits x; q = x div 2 ^ e; r = x mod 2 ^ e
      in if 2 * r < 2 ^ e then q * 2 ^ e
         else if 2 ^ e < 2 * r then (q + 1) * 2 ^ e
         else if even q then q * 2 ^ e
         else (q + 1) * 2 ^ e)"

definition js_add :: "nat \<Rightarrow> nat \<Rightarrow> nat" where
  "js_add a b = double_of_nat (a + b)"

text \<open>
  \<^verbatim>\<open>createWavHeader(pcmDataLength)\<close>. The argument is the length of a \<^verbatim>\<open>Uint8Array\<close>, a whole
  number. \<^verbatim>\<open>36 + pcmDataLength\<close> is a sum of doubles; \<^verbatim>\<open>bitsPerSample / 8\<close> is \<open>16 / 8 = 2\<close>, and
  the products of the constants are small, all exact in floating point.
\<close>

definition createWavHeader :: "nat \<Rightarrow> byte list option" where
  "createWavHeader pcmDataLength =
     (let header = replicate 44 (0 :: byte);
          sampleRate = (24000 :: nat);
          numChannels = (1 :: nat);
          bitsPerSample = (16 :: nat)
      in do {
        view \<leftarrow> setUint32 header 0 0x52494646 False;
        view \<leftarrow> setUint32 view 4 (js_add 36 pcmDataLength) True;
        view \<leftarrow> setUint32 view 8 0x57415645 False;
        view \<leftarrow> setUint32 view 12 0x666d7420 False;
        view \<leftarrow> setUint32 view 16 16 True;
        view \<leftarrow> setUint16 view 20 1 True;
        view \<leftarrow> setUint16 view 22 numChannels True;
        view \<leftarrow> setUint32 view 24 sampleRate True;
        view \<leftarrow> setUint32 view 28 (sampleRate * numChannels * (bitsPerSample div 8)) True;
        view \<leftarrow> setUint16 view 32 (numChannels * (bitsPerSample div 8)) True;
        view \<leftarrow> setUint16 view 34 bitsPerSample True;
        view \<leftarrow> setUint32 view 36 0x64617461 False;
        view \<leftarrow> setUint32 view 40 pcmDataLength True;
        Some view
      })"

text \<open>
  \<^verbatim>\<open>decode(base64)\<close>: \<^verbatim>\<open>atob\<close> (a function of the browser, a parameter here; it throws on text
  that is not base64) gives a string of code units below 256, and the loop copies the code
  of each into the byte array.
\<close>

definition decode :: "(string \<Rightarrow> exn + string) \<Rightarrow> string \<Rightarrow> exn + byte list" where
  "decode atob base64 =
     (case atob base64 of
        Inl e \<Rightarrow> Inl e
      | Inr binaryString \<Rightarrow> Inr (map (\<lambda>c. of_nat (of_char c)) binaryString))"

text \<open>
  \<^verbatim>\<open>generateDialogueSpeech\<close> from the provider's response on: \<open>base64Audio\<close> is the inline data
  of the first part of the first candidate, \<open>None\<close> where the optional chain gives
  \<^verbatim>\<open>undefined\<close>. The result is the content of the blob the returned object URL names:
  \<^verbatim>\<open>new Blob([wavHeader, pcmBytes])\<close> is the two arrays one after the other.
\<close>

definition generateDialogueSpeech ::
  "(string \<Rightarrow> exn + string) \<Rightarrow> string option \<Rightarrow> exn + byte list" where
  "generateDialogueSpeech atob base64Audio =
     (case base64Audio of
        None \<Rightarrow> Inl (Error ''No audio data returned'')
      | Some b \<Rightarrow>
          if b = [] then Inl (Error ''No audio data returned'')
          else (case decode atob b of
             Inl e \<Rightarrow> Inl e
           | Inr pcmBytes \<Rightarrow>
               (case createWavHeader (length pcmBytes) of
                  None \<Rightarrow> Inl (RangeError ''Offset is outside the bounds of the DataView'')
                | Some wavHeader \<Rightarrow> Inr (wavHeader @ pcmBytes))))"

text \<open>Reading the encoder's output: a range of bytes, an ASCII tag, a little-endian number.\<close>

definition slice :: "nat \<Rightarrow> nat \<Rightarrow> 'a list \<Rightarrow> 'a list" where
  "slice a b xs = take (b - a) (drop a xs)"

definition ascii :: "string \<Rightarrow> byte list" where
  "ascii s = map (\<lambda>c. of_nat (of_char c)) s"

fun uintLE :: "byte list \<Rightarrow> nat" where
  "uintLE [] = 0"
| "uintLE (b # bs) = unat b + 256 * uintLE bs"

section \<open>Script analysis and chat (services/geminiService.ts)\<close>

text \<open>
  One element of the array the provider is asked for. The response schema makes \<^verbatim>\<open>order\<close> an
  integer and the two texts strings; \<open>seg_order\<close> is \<open>None\<close> where the element has no
  \<^verbatim>\<open>order\<close>.
\<close>

record Segment =
  seg_order :: "int option"
  seg_description :: string
  seg_dialogue :: string

definition js_or :: "string \<Rightarrow> string \<Rightarrow> string" where
  "js_or a b = (if a = [] then b else a)"

text \<open>
  \<^verbatim>\<open>analyzeScript(script)\<close>. The two functions it calls are parameters: \<open>generateContent\<close> is the
  provider request, from the contents sent to the \<^verbatim>\<open>text\<close> of the response (\<open>None\<close> for
  \<^verbatim>\<open>undefined\<close>), and \<open>JSON_parse\<close> is \<^verbatim>\<open>JSON.parse\<close>, which throws on text that is not JSON.
\<close>

definition analyzeScript_contents :: "string \<Rightarrow> string" where
  "analyzeScript_contents script' =
     ''Analyze this script and break it into sequential scenes for a storyboard. For each scene, provide a descriptive action summary and dialogue. ''
     @ [CHR 0x0A] @ ''    Script: '' @ script'"

definition analyzeScript ::
  "(string \<Rightarrow> exn + 'a) \<Rightarrow> (string \<Rightarrow> string option promise) \<Rightarrow> string \<Rightarrow> 'a promise" where
  "analyzeScript JSON_parse generateContent script' =
     (case generateContent (analyzeScript_contents script') of
        Rejected e \<Rightarrow> Rejected e
      | Pending \<Rightarrow> Pending
      | Fulfilled text \<Rightarrow>
          (case JSON_parse (or_else text ''[]'') of
             Inl e \<Rightarrow> Rejected e
           | Inr sceneData \<Rightarrow> Fulfilled sceneData))"

text \<open>
  A parser that accepts the text \<^verbatim>\<open>[]\<close> and nothing else. It agrees with \<^verbatim>\<open>JSON.parse\<close> on
  \<^verbatim>\<open>[]\<close> and on every text that is not JSON, which is all the examples below need.
\<close>

definition parse_empty_array_only :: "string \<Rightarrow> exn + Segment list" where
  "parse_empty_array_only s =
     (if s = ''[]'' then Inr [] else Inl (SyntaxError ''Unexpected token''))"

text \<open>
  \<^verbatim>\<open>chatWithGemini(messages)\<close>. \<^verbatim>\<open>messages[messages.length - 1]\<close> is \<^verbatim>\<open>undefined\<close> for an empty
  array, and reading \<^verbatim>\<open>.text\<close> of it throws a \<^verbatim>\<open>TypeError\<close>. \<open>sendMessage\<close> is the provider's
  chat request, from the message to the \<^verbatim>\<open>text\<close> of the reply.
\<close>

definition chatWithGemini ::
  "(string \<Rightarrow> string option promise) \<Rightarrow> ChatMessage list \<Rightarrow> string promise" where
  "chatWithGemini sendMessage messages =
     (if messages = []
      then Rejected (TypeError ''Cannot read properties of undefined (reading 'text')'')
      else let lastMsg = messages ! (length messages - 1)
           in case sendMessage (text_msg lastMsg) of
                Rejected e \<Rightarrow> Rejected e
              | Pending \<Rightarrow> Pending
              | Fulfilled text \<Rightarrow> Fulfilled (or_else text ''Sorry, I couldn't process that.''))"

section \<open>Strings of JavaScript\<close>

text \<open>
  \<^verbatim>\<open>String.prototype.trim\<close> on strings of 8-bit characters: the white space and line
  terminators below code 256 are tab, line feed, vertical tab, form feed, carriage return,
  space and no-break space.
\<close>

definition isWhiteSpace :: "char \<Rightarrow> bool" where
  "isWhiteSpace c = (of_char c \<in> {9, 10, 11, 12, 13, 32, 160 :: nat})"

definition trim :: "string \<Rightarrow> string" where
  "trim s = rev (dropWhile isWhiteSpace (rev (dropWhile isWhiteSpace s)))"

text \<open>
  \<^verbatim>\<open>String.prototype.includes\<close> (\<open>includes\<close> is a keyword, hence the suffix): the argument
  occurs somewhere in the string.
\<close>

fun startsWith :: "string \<Rightarrow> string \<Rightarrow> bool" where
  "startsWith s [] = True"
| "startsWith [] (c # cs) = False"
| "startsWith (d # ds) (c # cs) = (d = c \<and> startsWith ds cs)"

fun includes_str :: "string \<Rightarrow> string \<Rightarrow> bool" where
  "includes_str [] sub = (sub = [])"
| "includes_str (d # ds) sub = (startsWith (d # ds) sub \<or> includes_str ds sub)"

text \<open>The decimal text of an integer, as a template literal prints a whole number.\<close>

function string_of_nat :: "nat \<Rightarrow> string" where
  "string_of_nat n =
     (if n < 10 then [char_of (48 + n)]
      else string_of_nat (n div 10) @ [char_of (48 + n mod 10)])"
  by pat_completeness auto
termination
  by (relation "measure (\<lambda>n. n)") auto

declare string_of_nat.simps [simp del]

definition string_of_int :: "int \<Rightarrow> string" where
  "string_of_int i = (if i < 0 then CHR ''-'' # string_of_nat (nat (- i)) else string_of_nat (nat i))"

section \<open>The application state controller (App component)\<close>

text \<open>
  \<^verbatim>\<open>crypto.randomUUID()\<close> gives a version-4 identifier, 122 bits drawn at random by the browser.
  The model takes the draws to be free of collisions: a source of identifiers is a sequence
  of strings that never gives a value twice.
\<close>

typedef uuid_source = "{f :: nat \<Rightarrow> string. inj f}"
proof
  show "(\<lambda>k. replicate k CHR ''x'') \<in> {f :: nat \<Rightarrow> string. inj f}"
    by (auto intro!: injI dest: arg_cong [where f = length])
qed

text \<open>
  The service layer as the controller sees it. Each function takes, before its own
  arguments, the number of events logged before the call, so that two calls with the same
  arguments may end differently. \<open>videoSettlesFirst\<close> says which of the two promises of
  final-video production settles first, and \<open>uuids\<close> is the source of the identifiers.
\<close>

record api =
  api_analyzeScript :: "nat \<Rightarrow> string \<Rightarrow> Segment list promise"
  api_generateStoryboardImage :: "nat \<Rightarrow> string \<Rightarrow> ImageSize \<Rightarrow> string promise"
  api_generateSceneVideo :: "nat \<Rightarrow> string \<Rightarrow> string \<Rightarrow> string promise"
  api_generateDialogueSpeech :: "nat \<Rightarrow> string \<Rightarrow> string promise"
  videoSettlesFirst :: "nat \<Rightarrow> bool"
  uuids :: uuid_source

text \<open>The value of the \<open>k\<close>-th call of \<^verbatim>\<open>crypto.randomUUID()\<close>.\<close>

definition randomUUID :: "api \<Rightarrow> nat \<Rightarrow> string" where
  "randomUUID a k = Rep_uuid_source (uuids a) k"

datatype call =
    AnalyzeScript string
  | GenerateStoryboardImage string ImageSize
  | GenerateSceneVideo string string
  | GenerateDialogueSpeech string

text \<open>What the controller does that others can see: a call of the service layer, or \<^verbatim>\<open>setProject\<close>.\<close>

datatype event = Call call | Commit "Project option"

text \<open>
  The state of the component: the \<^verbatim>\<open>useState\<close> cells its handlers read or write (the index of
  the rotating loading message is left out), with the log of events and the number of
  identifiers drawn so far.
\<close>

record App =
  project :: "Project option"
  loading :: "string option"
  error :: "string option"
  imageSize :: ImageSize
  scriptInput :: string
  hasApiKey :: bool
  trace :: "event list"
  uuidsDrawn :: nat

definition setProject :: "Project option \<Rightarrow> App \<Rightarrow> App" where
  "setProject p st = st\<lparr>project := p, trace := trace st @ [Commit p]\<rparr>"

definition logCall :: "call \<Rightarrow> App \<Rightarrow> App" where
  "logCall c st = st\<lparr>trace := trace st @ [Call c]\<rparr>"

text \<open>
  The callback of \<^verbatim>\<open>sceneData.map\<close> in \<^verbatim>\<open>handleScriptSubmit\<close>, applied from index \<open>idx\<close> on, with
  \<open>k\<close> identifiers drawn before. \<^verbatim>\<open>s.order || idx + 1\<close> takes the index also when the order is 0.
\<close>

fun mapScenes :: "(nat \<Rightarrow> string) \<Rightarrow> nat \<Rightarrow> nat \<Rightarrow> Segment list \<Rightarrow> Scene list" where
  "mapScenes uuid k idx [] = []"
| "mapScenes uuid k idx (s # rest) =
     \<lparr> id_scene = uuid k,
       order = (case seg_order s of
                  None \<Rightarrow> int idx + 1
                | Some n \<Rightarrow> if n = 0 then int idx + 1 else n),
       description = seg_description s,
       dialogue = seg_dialogue s,
       storyboardImageUrl = None,
       storyboardPrompt = Some (seg_description s),
       videoUrl = None,
       audioUrl = None,
       isApproved = False \<rparr>
     # mapScenes uuid (k + 1) (idx + 1) rest"

definition handleScriptSubmit :: "api \<Rightarrow> App \<Rightarrow> App" where
  "handleScriptSubmit a st =
     (if trim (scriptInput st) = [] then st
      else
        let st1 = st\<lparr>loading := Some ''Analyzing script and breaking into scenes...''\<rparr>;
            st2 = logCall (AnalyzeScript (scriptInput st)) st1
        in case api_analyzeScript a (length (trace st1)) (scriptInput st) of
             Pending \<Rightarrow> st2
           | Rejected err \<Rightarrow>
               (st2\<lparr>error := Some (js_or (message err) ''Failed to analyze script'')\<rparr>)
                 \<lparr>loading := None\<rparr>
           | Fulfilled sceneData \<Rightarrow>
               (let scenes' = mapScenes (randomUUID a) (uuidsDrawn st2) 0 sceneData;
                    st3 = st2\<lparr>uuidsDrawn := uuidsDrawn st2 + length sceneData\<rparr>
                in (setProject
                      (Some \<lparr>title = ''My New Animation'', script = scriptInput st,
                             scenes = scenes'\<rparr>) st3)
                   \<lparr>loading := None\<rparr>))"

text \<open>How a \<^verbatim>\<open>try\<close> block ends: normally, by a throw, or never (an await that does not settle).\<close>

datatype completion = Normal | Throw exn | Suspended

text \<open>
  The \<^verbatim>\<open>for\<close> loop of \<^verbatim>\<open>handleGenerateAllStoryboards\<close> from index \<open>i\<close> on: \<open>updatedScenes\<close> is the
  local array, \<open>size'\<close> the image size of the closure. The functional update
  \<^verbatim>\<open>setProject(prev => prev ? {...prev, scenes: [...updatedScenes]} : null)\<close> reads the current
  project.
\<close>

function handleGenerateAllStoryboards_loop ::
  "api \<Rightarrow> ImageSize \<Rightarrow> nat \<Rightarrow> Scene list \<Rightarrow> App \<Rightarrow> completion \<times> App" where
  "handleGenerateAllStoryboards_loop a size' i updatedScenes st =
     (if i < length updatedScenes then
        let scene = updatedScenes ! i in
        if \<not> truthy (storyboardImageUrl scene) then
          let st1 = st\<lparr>loading :=
                      Some (''Generating sketch for Scene '' @ string_of_int (order scene) @ ''...'')\<rparr>;
              prompt = or_else (storyboardPrompt scene) (description scene);
              st2 = logCall (GenerateStoryboardImage prompt size') st1
          in case api_generateStoryboardImage a (length (trace st1)) prompt size' of
               Pending \<Rightarrow> (Suspended, st2)
             | Rejected err \<Rightarrow> (Throw err, st2)
             | Fulfilled imageUrl \<Rightarrow>
                 (let updatedScenes' = updatedScenes[i := scene\<lparr>storyboardImageUrl := Some imageUrl\<rparr>];
                      st3 = setProject
                              (case project st2 of
                                 Some prev \<Rightarrow> Some (prev\<lparr>scenes := updatedScenes'\<rparr>)
                               | None \<Rightarrow> None) st2
                  in handleGenerateAllStoryboards_loop a size' (i + 1) updatedScenes' st3)
        else handleGenerateAllStoryboards_loop a size' (i + 1) updatedScenes st
      else (Normal, st))"
  by pat_completeness auto
termination
  by (relation "measure (\<lambda>(a, size', i, updatedScenes, st). length updatedScenes - i)") auto

declare handleGenerateAllStoryboards_loop.simps [simp del]

definition handleGenerateAllStoryboards :: "api \<Rightarrow> App \<Rightarrow> App" where
  "handleGenerateAllStoryboards a st =
     (case project st of
        None \<Rightarrow> st
      | Some p \<Rightarrow>
          let st1 = st\<lparr>loading := Some ''Generating all storyboards sequentially...''\<rparr>;
              updatedScenes = scenes p
          in case handleGenerateAllStoryboards_loop a (imageSize st) 0 updatedScenes st1 of
               (Normal, st2) \<Rightarrow> st2\<lparr>loading := None\<rparr>
             | (Throw err, st2) \<Rightarrow>
                 (st2\<lparr>error := Some (js_or (message err) ''Bulk generation failed'')\<rparr>)
                   \<lparr>loading := None\<rparr>
             | (Suspended, st2) \<Rightarrow> st2)"

definition handleApproveScene :: "string \<Rightarrow> App \<Rightarrow> App" where
  "handleApproveScene sceneId st =
     (case project st of
        None \<Rightarrow> st
      | Some p \<Rightarrow>
          let updatedScenes =
                map (\<lambda>s. if id_scene s = sceneId then s\<lparr>isApproved := \<not> isApproved s\<rparr> else s)
                  (scenes p)
          in setProject (Some (p\<lparr>scenes := updatedScenes\<rparr>)) st)"

definition handleUpdatePrompt :: "string \<Rightarrow> string \<Rightarrow> App \<Rightarrow> App" where
  "handleUpdatePrompt sceneId newPrompt st =
     (case project st of
        None \<Rightarrow> st
      | Some p \<Rightarrow>
          let updatedScenes =
                map (\<lambda>s. if id_scene s = sceneId then s\<lparr>storyboardPrompt := Some newPrompt\<rparr> else s)
                  (scenes p)
          in setProject (Some (p\<lparr>scenes := updatedScenes\<rparr>)) st)"

text \<open>
  \<^verbatim>\<open>Promise.all\<close> of two promises: fulfilled when both are, rejected as soon as one is (with the
  rejection that comes first when both are), and pending otherwise.
\<close>

fun Promise_all :: "bool \<Rightarrow> 'a promise \<Rightarrow> 'b promise \<Rightarrow> ('a \<times> 'b) promise" where
  "Promise_all firstWins (Fulfilled x) (Fulfilled y) = Fulfilled (x, y)"
| "Promise_all firstWins (Rejected e) (Rejected e') = Rejected (if firstWins then e else e')"
| "Promise_all firstWins (Rejected e) q = Rejected e"
| "Promise_all firstWins p (Rejected e') = Rejected e'"
| "Promise_all firstWins p q = Pending"

text \<open>
  \<^verbatim>\<open>handleGenerateFinalVideo(sceneId)\<close>. Both requests are started before either is awaited, so
  both calls are logged whatever their outcome.
\<close>

definition handleGenerateFinalVideo :: "api \<Rightarrow> string \<Rightarrow> App \<Rightarrow> App" where
  "handleGenerateFinalVideo a sceneId st =
     (case project st of
        None \<Rightarrow> st
      | Some p \<Rightarrow>
          (case find (\<lambda>s. id_scene s = sceneId) (scenes p) of
             None \<Rightarrow> st
           | Some scene \<Rightarrow>
               if \<not> truthy (storyboardImageUrl scene) then st
               else
                 let st1 = st\<lparr>loading :=
                             Some (''Animating scene '' @ string_of_int (order scene)
                                   @ ''... This will take about a minute.'')\<rparr>;
                     t = length (trace st1);
                     prompt = or_else (storyboardPrompt scene) (description scene);
                     image' = or_else (storyboardImageUrl scene) [];
                     videoUrlPromise = api_generateSceneVideo a t prompt image';
                     st2 = logCall (GenerateSceneVideo prompt image') st1;
                     audioUrlPromise = api_generateDialogueSpeech a (t + 1) (dialogue scene);
                     st3 = logCall (GenerateDialogueSpeech (dialogue scene)) st2
                 in case Promise_all (videoSettlesFirst a t) videoUrlPromise audioUrlPromise of
                      Pending \<Rightarrow> st3
                    | Fulfilled (videoUrl', audioUrl') \<Rightarrow>
                        (let updatedScenes =
                               map (\<lambda>s. if id_scene s = sceneId
                                         then s\<lparr>videoUrl := Some videoUrl', audioUrl := Some audioUrl'\<rparr>
                                         else s) (scenes p)
                         in (setProject (Some (p\<lparr>scenes := updatedScenes\<rparr>)) st3)
                            \<lparr>loading := None\<rparr>)
                    | Rejected err \<Rightarrow>
                        (if includes_str (message err) ''Requested entity was not found''
                         then st3\<lparr>hasApiKey := False,
                                  error := Some ''API Session expired. Please re-select your key.''\<rparr>
                         else st3\<lparr>error := Some (js_or (message err) ''Animation generation failed'')\<rparr>)
                        \<lparr>loading := None\<rparr>))"

section \<open>The chat overlay (components/ChatBot.tsx)\<close>

text \<open>
  The state of the \<^verbatim>\<open>ChatBot\<close> component that \<^verbatim>\<open>handleSend\<close> reads or writes, with the log of
  the histories it has passed to \<^verbatim>\<open>api.chatWithGemini\<close>.
\<close>

record ChatBot =
  messages :: "ChatMessage list"
  input :: string
  isTyping :: bool
  sent :: "ChatMessage list list"

text \<open>
  The call \<^verbatim>\<open>api.chatWithGemini(history)\<close> as the component makes it: the outcome of the
  function on the history passed, and that same history entered in the log.
\<close>

definition api_chatWithGemini ::
  "(nat \<Rightarrow> string \<Rightarrow> string option promise) \<Rightarrow> ChatMessage list \<Rightarrow> ChatBot
     \<Rightarrow> string promise \<times> ChatBot" where
  "api_chatWithGemini sendMessage history st =
     (chatWithGemini (sendMessage (length (sent st))) history, st\<lparr>sent := sent st @ [history]\<rparr>)"

text \<open>
  \<^verbatim>\<open>handleSend\<close>. \<open>sendMessage\<close> is the provider's chat request, with the number of calls made
  before it as first argument. The array \<^verbatim>\<open>[...messages, userMsg]\<close> is built from the messages
  of the closure, those of the state when the handler starts.
\<close>

definition handleSend :: "(nat \<Rightarrow> string \<Rightarrow> string option promise) \<Rightarrow> ChatBot \<Rightarrow> ChatBot" where
  "handleSend sendMessage st =
     (if trim (input st) = [] then st
      else
        let userMsg = \<lparr>role = RoleUser, text_msg = input st\<rparr>;
            st1 = st\<lparr>messages := messages st @ [userMsg], input := [], isTyping := True\<rparr>
        in case api_chatWithGemini sendMessage (messages st @ [userMsg]) st1 of
             (Pending, st2) \<Rightarrow> st2
           | (Fulfilled response, st2) \<Rightarrow>
               st2\<lparr>messages := messages st2 @ [\<lparr>role = RoleModel, text_msg = response\<rparr>],
                   isTyping := False\<rparr>
           | (Rejected err, st2) \<Rightarrow>
               st2\<lparr>messages := messages st2
                       @ [\<lparr>role = RoleModel, text_msg = ''Error: Could not reach the AI assistant.''\<rparr>],
                   isTyping := False\<rparr>)"

section \<open>Reading the log, and fixed providers for the examples\<close>

text \<open>The calls of the service layer in a log, and the projects committed, each in order.\<close>

fun callsOf :: "event list \<Rightarrow> call list" where
  "callsOf [] = []"
| "callsOf (Call c # evs) = c # callsOf evs"
| "callsOf (Commit p # evs) = callsOf evs"

fun commitsOf :: "event list \<Rightarrow> Project option list" where
  "commitsOf [] = []"
| "commitsOf (Call c # evs) = commitsOf evs"
| "commitsOf (Commit p # evs) = p # commitsOf evs"

text \<open>A provider that ends every request the same way.\<close>

definition respond :: "'b \<Rightarrow> 'a \<Rightarrow> 'b" where
  "respond r request = r"

definition respond2 :: "'c \<Rightarrow> 'a \<Rightarrow> 'b \<Rightarrow> 'c" where
  "respond2 r t request = r"

definition respond3 :: "'d \<Rightarrow> 'a \<Rightarrow> 'b \<Rightarrow> 'c \<Rightarrow> 'd" where
  "respond3 r t request extra = r"

text \<open>
  A service layer for the examples: each kind of request ends as given whatever its
  arguments, the video promise settles first, and the \<open>k\<close>-th identifier drawn is \<open>k\<close> letters
  \<open>x\<close>.
\<close>

definition fixed_api ::
  "Segment list promise \<Rightarrow> string promise \<Rightarrow> string promise \<Rightarrow> string promise \<Rightarrow> api" where
  "fixed_api analysis image' video audio =
     \<lparr> api_analyzeScript = respond2 analysis,
       api_generateStoryboardImage = respond3 image',
       api_generateSceneVideo = respond3 video,
       api_generateDialogueSpeech = respond2 audio,
       videoSettlesFirst = respond True,
       uuids = Abs_uuid_source (\<lambda>k. replicate k CHR ''x'') \<rparr>"

section \<open>What bulk generation is expected to do\<close>

text \<open>
  The words of the specification for bulk generation, to be compared with the loop: scenes
  are taken in list order, a scene that has an image is passed over, and each other scene
  gets its image by one request followed by one commit of the project.
\<close>

definition lacksImage :: "Scene \<Rightarrow> bool" where
  "lacksImage s = (\<not> truthy (storyboardImageUrl s))"

definition imagePrompt :: "Scene \<Rightarrow> string" where
  "imagePrompt s = or_else (storyboardPrompt s) (description s)"

text \<open>The scenes after the images \<open>urls\<close> have gone, in list order, to the scenes that lack one.\<close>

fun fill :: "string list \<Rightarrow> Scene list \<Rightarrow> Scene list" where
  "fill urls [] = []"
| "fill [] (s # ss) = s # ss"
| "fill (u # us) (s # ss) =
     (if lacksImage s then s\<lparr>storyboardImageUrl := Some u\<rparr> # fill us ss
      else s # fill (u # us) ss)"

text \<open>
  The events of a bulk generation over the scenes \<open>rest\<close> of project \<open>q\<close>, the scenes \<open>before\<close>
  being behind the loop already, when the provider fulfils the first \<open>length urls\<close> requests
  with \<open>urls\<close>: for the \<open>n\<close>-th scene that lacks an image, the request and then the commit of
  the project with the first \<open>n + 1\<close> images in place; and, when images are still missing
  after that, the one request that was not fulfilled.
\<close>

definition bulk_events ::
  "Project \<Rightarrow> ImageSize \<Rightarrow> Scene list \<Rightarrow> Scene list \<Rightarrow> string list \<Rightarrow> event list" where
  "bulk_events q size' before rest urls =
     concat (map (\<lambda>n. [Call (GenerateStoryboardImage (imagePrompt (filter lacksImage rest ! n)) size'),
                        Commit (Some (q\<lparr>scenes := before @ fill (take (Suc n) urls) rest\<rparr>))])
               [0 ..< length urls])
     @ (if length urls < length (filter lacksImage rest)
        then [Call (GenerateStoryboardImage
                      (imagePrompt (filter lacksImage rest ! length urls)) size')]
        else [])"

text \<open>
  What the loop is expected to have done when it stops with result \<open>R\<close>, started in state
  \<open>st\<close> with project \<open>q\<close> on the scenes \<open>rest\<close>: the provider fulfilled the first
  \<open>length urls\<close> requests with \<open>urls\<close>, the log grew by the events above, the project holds
  the images obtained, and the loop ended normally exactly when no image is missing,
  by the provider's rejection or without end otherwise.
\<close>

definition bulk_outcome ::
  "api \<Rightarrow> ImageSize \<Rightarrow> Project \<Rightarrow> Scene list \<Rightarrow> Scene list \<Rightarrow> App
     \<Rightarrow> completion \<times> App \<Rightarrow> string list \<Rightarrow> bool" where
  "bulk_outcome a size' q before rest st R urls \<longleftrightarrow>
     length urls \<le> length (filter lacksImage rest)
   \<and> (\<forall>n < length urls.
         api_generateStoryboardImage a (length (trace st) + 2 * n)
           (imagePrompt (filter lacksImage rest ! n)) size' = Fulfilled (urls ! n))
   \<and> trace (snd R) = trace st @ bulk_events q size' before rest urls
   \<and> project (snd R) =
       (if urls = [] then Some q else Some (q\<lparr>scenes := before @ fill urls rest\<rparr>))
   \<and> error (snd R) = error st
   \<and> hasApiKey (snd R) = hasApiKey st
   \<and> (case fst R of
         Normal \<Rightarrow> length urls = length (filter lacksImage rest)
       | Throw err \<Rightarrow>
           length urls < length (filter lacksImage rest)
         \<and> api_generateStoryboardImage a (length (trace st) + 2 * length urls)
             (imagePrompt (filter lacksImage rest ! length urls)) size' = Rejected err
       | Suspended \<Rightarrow>
           length urls < length (filter lacksImage rest)
         \<and> api_generateStoryboardImage a (length (trace st) + 2 * length urls)
             (imagePrompt (filter lacksImage rest ! length urls)) size' = Pending
         \<and> loading (snd R) \<noteq> None)"

section \<open>Examples\<close>

definition scene_a :: Scene where
  "scene_a = \<lparr> id_scene = ''a'', order = 1, description = ''Alice waves.'', dialogue = ''Hello.'',
       storyboardImageUrl = None, storyboardPrompt = Some ''Alice waves.'',
       videoUrl = None, audioUrl = None, isApproved = False \<rparr>"

definition scene_b :: Scene where
  "scene_b = \<lparr> id_scene = ''b'', order = 2, description = ''Bob nods.'', dialogue = ''Hi.'',
       storyboardImageUrl = Some ''data:image/png;base64,AAAA'', storyboardPrompt = Some ''Bob nods.'',
       videoUrl = None, audioUrl = None, isApproved = True \<rparr>"

definition project_ab :: Project where
  "project_ab = \<lparr> title = ''My New Animation'', script = ''Alice waves. Bob nods.'',
       scenes = [scene_b, scene_a] \<rparr>"

definition app_ab :: App where
  "app_ab = \<lparr> project = Some project_ab, loading = None, error = None, imageSize = Size1K,
       scriptInput = ''Alice waves. Bob nods.'', hasApiKey = True, trace = [], uuidsDrawn = 0 \<rparr>"

definition app_empty :: App where
  "app_empty = \<lparr> project = None, loading = None, error = None, imageSize = Size1K,
       scriptInput = ''Alice waves.'', hasApiKey = True, trace = [], uuidsDrawn = 0 \<rparr>"

definition segment_zero :: Segment where
  "segment_zero = \<lparr> seg_order = Some 0, seg_description = ''Alice waves.'', seg_dialogue = ''Hello.'' \<rparr>"

definition chat_empty :: ChatBot where
  "chat_empty = \<lparr> messages = [], input = ''hello'', isTyping = False, sent = [] \<rparr>"

section \<open>The bytes of the header\<close>

lemma unat_byte0: "unat (ucast (w :: 'a::len word) :: byte) = unat w mod 256"
  by (simp add: unsigned_ucast_eq take_bit_eq_mod)

lemma split256: "(y::nat) mod 256 + 256 * (y div 256) = y"
  by (rule mod_mult_div_eq)

lemma le_decomp32:
  fixes x :: nat
  shows "x mod 256 + 256 * ((x div 2 ^ 8) mod 256 + 256 * ((x div 2 ^ 16) mod 256 + 256 * (x div 2 ^ 24))) = x"
proof -
  have d2: "x div 2 ^ 16 = (x div 2 ^ 8) div 256" by (simp add: div_mult2_eq [symmetric])
  have d3: "x div 2 ^ 24 = (x div 2 ^ 16) div 256" by (simp add: div_mult2_eq [symmetric])
  have e1: "x mod 256 + 256 * (x div 2 ^ 8) = x" using split256 [of x] by simp
  have e2: "(x div 2 ^ 8) mod 256 + 256 * (x div 2 ^ 16) = x div 2 ^ 8"
    using split256 [of "x div 2 ^ 8"] d2 by simp
  have e3: "(x div 2 ^ 16) mod 256 + 256 * (x div 2 ^ 24) = x div 2 ^ 16"
    using split256 [of "x div 2 ^ 16"] d3 by simp
  show ?thesis by (simp only: e3 e2 e1)
qed

lemma le_decomp16:
  fixes x :: nat
  assumes "x < 2 ^ 16"
  shows "x mod 256 + 256 * ((x div 2 ^ 8) mod 256) = x"
proof -
  have "x div 2 ^ 8 < 256" using assms by (simp add: less_mult_imp_div_less)
  then have top: "(x div 2 ^ 8) mod 256 = x div 2 ^ 8" by simp
  show ?thesis using split256 [of x] top by simp
qed

lemma uintLE_bytes32: "uintLE (rev (bytes32 w)) = unat w"
proof -
  have b: "unat w < 2 ^ 32" using unsigned_less [of w] by simp
  then have "unat w div 2 ^ 24 < 256" by (simp add: less_mult_imp_div_less)
  then have top: "(unat w div 16777216) mod 256 = unat w div 16777216" by simp
  show ?thesis
    using le_decomp32 [of "unat w"]
    by (simp add: bytes32_def unat_byte0 unat_drop_bit_eq drop_bit_eq_div [where ?'a = nat] top)
qed

lemma uintLE_bytes16: "uintLE (rev (bytes16 w)) = unat w"
proof -
  have b: "unat w < 2 ^ 16" using unsigned_less [of w] by simp
  show ?thesis
    using le_decomp16 [OF b]
    by (simp add: bytes16_def unat_byte0 unat_drop_bit_eq drop_bit_eq_div [where ?'a = nat])
qed

lemma excess_bits_exact: "x < 2 ^ 53 \<Longrightarrow> excess_bits x = 0"
  by (subst excess_bits.simps) simp

lemma double_of_nat_exact: "x < 2 ^ 53 \<Longrightarrow> double_of_nat x = x"
  by (simp add: double_of_nat_def excess_bits_exact)

lemma js_add_exact: "a + b < 2 ^ 53 \<Longrightarrow> js_add a b = a + b"
  by (simp add: js_add_def double_of_nat_exact)

lemma createWavHeader_bytes:
  "createWavHeader L = Some (ascii ''RIFF'' @ rev (bytes32 (of_nat (js_add 36 L))) @ ascii ''WAVE''
     @ ascii ''fmt '' @ rev (bytes32 16) @ rev (bytes16 1) @ rev (bytes16 1) @ rev (bytes32 24000)
     @ rev (bytes32 48000) @ rev (bytes16 2) @ rev (bytes16 16) @ ascii ''data''
     @ rev (bytes32 (of_nat L)))"
  by (simp add: createWavHeader_def Let_def setUint32_def setUint16_def store_def bytes32_def
      bytes16_def ascii_def)

lemma length_bytes32: "length (bytes32 w) = 4"
  by (simp add: bytes32_def)

lemma length_bytes16: "length (bytes16 w) = 2"
  by (simp add: bytes16_def)

lemma length_ascii: "length (ascii s) = length s"
  by (simp add: ascii_def)

lemmas header_fields =
  slice_def length_bytes32 length_bytes16 length_ascii uintLE_bytes32 uintLE_bytes16 unat_of_nat

text \<open>
  The sum \<^verbatim>\<open>36 + pcmDataLength\<close> beyond 53 bits: for the length \<open>2^53 - 1\<close> the exact sum
  \<open>2^53 + 35\<close> is no double, the code adds to \<open>2^53 + 36\<close>, and bytes 4 to 7 hold 36.
\<close>

lemma createWavHeader_rounds_sum:
  "js_add 36 9007199254740991 = 9007199254741028
   \<and> map_option (uintLE \<circ> slice 4 8) (createWavHeader 9007199254740991) = Some 36"
proof -
  have e1: "excess_bits 4503599627370513 = 0"
    by (subst excess_bits.simps) simp
  have e: "excess_bits 9007199254741027 = 1"
    by (subst excess_bits.simps) (simp add: e1)
  have a: "js_add 36 9007199254740991 = 9007199254741028"
    by (simp add: js_add_def double_of_nat_def e)
  show ?thesis
    by (simp add: createWavHeader_bytes header_fields a)
qed

text \<open>
  C1. The encoder receives the length \<open>L\<close> of the byte array that \<^verbatim>\<open>decode\<close> makes of the string
  \<^verbatim>\<open>atob\<close> returns, and no JavaScript engine has a string of \<open>2^31\<close> code units or more; the
  theorem asks only that the file size \<open>36 + L\<close> fits 32 bits. For every such length the
  encoder gives the 44 bytes of the header followed by the PCM bytes, \<open>44 + L\<close> bytes in all:
  bytes 0 to 3 are ``RIFF'', 4 to 7 little-endian \<open>36 + L\<close>, 8 to 11 ``WAVE'', 12 to 15 ``fmt '',
  16 to 19 little-endian 16, 20 to 21 the format 1, 22 to 23 one channel, 24 to 27 the
  sample rate 24000, 28 to 31 the byte rate 48000, 32 to 33 the block align 2, 34 to 35 the
  16 bits per sample, 36 to 39 ``data'', and 40 to 43 little-endian \<open>L\<close>. The speech function
  returns these bytes for the decoded payload.
\<close>

theorem wav_container_layout:
  fixes pcmBytes :: "byte list"
  assumes fits: "36 + length pcmBytes < 2 ^ 32"
  shows "\<exists>wavHeader. createWavHeader (length pcmBytes) = Some wavHeader
      \<and> length wavHeader = 44
      \<and> length (wavHeader @ pcmBytes) = 44 + length pcmBytes
      \<and> take 44 (wavHeader @ pcmBytes) = wavHeader
      \<and> drop 44 (wavHeader @ pcmBytes) = pcmBytes
      \<and> slice 0 4 (wavHeader @ pcmBytes) = ascii ''RIFF''
      \<and> uintLE (slice 4 8 (wavHeader @ pcmBytes)) = 36 + length pcmBytes
      \<and> slice 8 12 (wavHeader @ pcmBytes) = ascii ''WAVE''
      \<and> slice 12 16 (wavHeader @ pcmBytes) = ascii ''fmt ''
      \<and> uintLE (slice 16 20 (wavHeader @ pcmBytes)) = 16
      \<and> uintLE (slice 20 22 (wavHeader @ pcmBytes)) = 1
      \<and> uintLE (slice 22 24 (wavHeader @ pcmBytes)) = 1
      \<and> uintLE (slice 24 28 (wavHeader @ pcmBytes)) = 24000
      \<and> uintLE (slice 28 32 (wavHeader @ pcmBytes)) = 48000
      \<and> uintLE (slice 28 32 (wavHeader @ pcmBytes))
          = uintLE (slice 24 28 (wavHeader @ pcmBytes)) * uintLE (slice 22 24 (wavHeader @ pcmBytes))
            * (uintLE (slice 34 36 (wavHeader @ pcmBytes)) div 8)
      \<and> uintLE (slice 32 34 (wavHeader @ pcmBytes)) = 2
      \<and> uintLE (slice 34 36 (wavHeader @ pcmBytes)) = 16
      \<and> slice 36 40 (wavHeader @ pcmBytes) = ascii ''data''
      \<and> uintLE (slice 40 44 (wavHeader @ pcmBytes)) = length pcmBytes
      \<and> (\<forall>atob b. b \<noteq> [] \<longrightarrow> decode atob b = Inr pcmBytes \<longrightarrow>
           generateDialogueSpeech atob (Some b) = Inr (wavHeader @ pcmBytes))"
proof -
  define L where "L = length pcmBytes"
  have fits': "36 + L < 2 ^ 32" using fits by (simp add: L_def)
  then have "36 + L < (2::nat) ^ 53"
    by (rule less_trans) simp
  then have sum: "js_add 36 L = 36 + L" by (rule js_add_exact)
  have m4: "(36 + L) mod 4294967296 = 36 + L" and m40: "L mod 4294967296 = L"
    using fits' by simp_all
  let ?h = "ascii ''RIFF'' @ rev (bytes32 (of_nat (36 + L))) @ ascii ''WAVE'' @ ascii ''fmt ''
     @ rev (bytes32 16) @ rev (bytes16 1) @ rev (bytes16 1) @ rev (bytes32 24000)
     @ rev (bytes32 48000) @ rev (bytes16 2) @ rev (bytes16 16) @ ascii ''data''
     @ rev (bytes32 (of_nat L))"
  have h: "createWavHeader L = Some ?h"
    using createWavHeader_bytes [of L] by (simp only: sum)
  have len: "length ?h = 44" by (simp add: length_bytes32 length_bytes16 length_ascii)
  have f0: "slice 0 4 (?h @ pcmBytes) = ascii ''RIFF''" by (simp add: header_fields)
  have f4: "uintLE (slice 4 8 (?h @ pcmBytes)) = 36 + L"
    using m4 by (simp add: header_fields del: of_nat_add)
  have f8: "slice 8 12 (?h @ pcmBytes) = ascii ''WAVE''" by (simp add: header_fields)
  have f12: "slice 12 16 (?h @ pcmBytes) = ascii ''fmt ''" by (simp add: header_fields)
  have f16: "uintLE (slice 16 20 (?h @ pcmBytes)) = 16" by (simp add: header_fields)
  have f20: "uintLE (slice 20 22 (?h @ pcmBytes)) = 1" by (simp add: header_fields)
  have f22: "uintLE (slice 22 24 (?h @ pcmBytes)) = 1" by (simp add: header_fields)
  have f24: "uintLE (slice 24 28 (?h @ pcmBytes)) = 24000" by (simp add: header_fields)
  have f28: "uintLE (slice 28 32 (?h @ pcmBytes)) = 48000" by (simp add: header_fields)
  have f32: "uintLE (slice 32 34 (?h @ pcmBytes)) = 2" by (simp add: header_fields)
  have f34: "uintLE (slice 34 36 (?h @ pcmBytes)) = 16" by (simp add: header_fields)
  have rate: "uintLE (slice 28 32 (?h @ pcmBytes))
          = uintLE (slice 24 28 (?h @ pcmBytes)) * uintLE (slice 22 24 (?h @ pcmBytes))
            * (uintLE (slice 34 36 (?h @ pcmBytes)) div 8)"
    unfolding f28 f24 f22 f34 by simp
  have f36: "slice 36 40 (?h @ pcmBytes) = ascii ''data''" by (simp add: header_fields)
  have f40: "uintLE (slice 40 44 (?h @ pcmBytes)) = L"
    using m40 by (simp add: header_fields)
  have speech: "\<forall>atob b. b \<noteq> [] \<longrightarrow> decode atob b = Inr pcmBytes \<longrightarrow>
           generateDialogueSpeech atob (Some b) = Inr (?h @ pcmBytes)"
    using h by (simp add: generateDialogueSpeech_def L_def)
  have tk: "take 44 (?h @ pcmBytes) = ?h" using len by simp
  have dr: "drop 44 (?h @ pcmBytes) = pcmBytes" using len by simp
  have tot: "length (?h @ pcmBytes) = 44 + L"
    by (simp add: L_def length_bytes32 length_bytes16 length_ascii)
  show ?thesis
    unfolding L_def [symmetric]
    using h len tot tk dr f0 f4 f8 f12 f16 f20 f22 f24 f28 rate f32 f34 f36 f40 speech
    by (intro exI [of _ ?h]) (simp only: simp_thms)
qed

theorem wav_container_layout_witness:
  "36 + length [97, 98, 99, 100 :: byte] < 2 ^ 32
   \<and> decode (respond (Inr ''abcd'')) ''YWJjZA=='' = Inr [97, 98, 99, 100]
   \<and> (\<exists>wavHeader. createWavHeader 4 = Some wavHeader
        \<and> length (wavHeader @ [97, 98, 99, 100]) = 48
        \<and> uintLE (slice 4 8 (wavHeader @ [97, 98, 99, 100])) = 40
        \<and> uintLE (slice 40 44 (wavHeader @ [97, 98, 99, 100])) = 4
        \<and> generateDialogueSpeech (respond (Inr ''abcd'')) (Some ''YWJjZA=='')
            = Inr (wavHeader @ [97, 98, 99, 100]))"
proof -
  let ?pcm = "[97, 98, 99, 100 :: byte]"
  let ?atob = "respond (Inr ''abcd'') :: string \<Rightarrow> exn + string"
  have d: "decode ?atob ''YWJjZA=='' = Inr ?pcm"
    by (simp add: decode_def respond_def)
  have b: "36 + length ?pcm < 2 ^ 32" by simp
  have l4: "length ?pcm = 4" by simp
  from wav_container_layout [OF b]
  obtain wavHeader where w: "createWavHeader (length ?pcm) = Some wavHeader"
    and tot: "length (wavHeader @ ?pcm) = 44 + length ?pcm"
    and f4: "uintLE (slice 4 8 (wavHeader @ ?pcm)) = 36 + length ?pcm"
    and f40: "uintLE (slice 40 44 (wavHeader @ ?pcm)) = length ?pcm"
    and speech: "\<forall>atob b. b \<noteq> [] \<longrightarrow> decode atob b = Inr ?pcm \<longrightarrow>
           generateDialogueSpeech atob (Some b) = Inr (wavHeader @ ?pcm)"
    by blast
  have n: "''YWJjZA=='' \<noteq> []" by simp
  from speech n d have s: "generateDialogueSpeech ?atob (Some ''YWJjZA=='') = Inr (wavHeader @ ?pcm)"
    by blast
  from w have w4: "createWavHeader 4 = Some wavHeader" by (simp only: l4)
  from tot have t48: "length (wavHeader @ ?pcm) = 48" by (simp only: l4)
  from f4 have e4: "uintLE (slice 4 8 (wavHeader @ ?pcm)) = 40" by (simp only: l4)
  from f40 have e40: "uintLE (slice 40 44 (wavHeader @ ?pcm)) = 4" by (simp only: l4)
  from w4 t48 e4 e40 s
  have ex: "\<exists>wavHeader. createWavHeader 4 = Some wavHeader
        \<and> length (wavHeader @ ?pcm) = 48
        \<and> uintLE (slice 4 8 (wavHeader @ ?pcm)) = 40
        \<and> uintLE (slice 40 44 (wavHeader @ ?pcm)) = 4
        \<and> generateDialogueSpeech ?atob (Some ''YWJjZA=='') = Inr (wavHeader @ ?pcm)"
    by (intro exI [of _ wavHeader]) (simp only: simp_thms)
  show ?thesis by (rule conjI [OF b conjI [OF d ex]])
qed

section \<open>Script analysis: where the fallback applies\<close>

text \<open>
  C2, as the code has it. The fallback \<^verbatim>\<open>response.text || "[]"\<close> replaces a text that is absent or
  empty: then \<^verbatim>\<open>[]\<close> is parsed and the scene list is empty. A text that is not empty goes to
  \<^verbatim>\<open>JSON.parse\<close> as it is, and when the parser rejects it \<^verbatim>\<open>analyzeScript\<close> fails with the
  parser's error.
\<close>

theorem analyzeScript_fallback_scope:
  assumes "generateContent (analyzeScript_contents script') = Fulfilled text'"
  shows "(\<not> truthy text' \<longrightarrow> JSON_parse ''[]'' = Inr [] \<longrightarrow>
            analyzeScript JSON_parse generateContent script' = Fulfilled [])
       \<and> (\<forall>t e. text' = Some t \<longrightarrow> t \<noteq> [] \<longrightarrow> JSON_parse t = Inl e \<longrightarrow>
            analyzeScript JSON_parse generateContent script' = Rejected e)"
  using assms by (cases text') (auto simp: analyzeScript_def or_else_def)

theorem analyzeScript_fallback_scope_witness:
  "respond (Fulfilled None) (analyzeScript_contents ''Alice waves.'') = Fulfilled None
   \<and> \<not> truthy None
   \<and> parse_empty_array_only ''[]'' = Inr []
   \<and> analyzeScript parse_empty_array_only (respond (Fulfilled None)) ''Alice waves.'' = Fulfilled []
   \<and> respond (Fulfilled (Some ''not json'')) (analyzeScript_contents ''Alice waves.'')
        = Fulfilled (Some ''not json'')
   \<and> ''not json'' \<noteq> []
   \<and> parse_empty_array_only ''not json'' = Inl (SyntaxError ''Unexpected token'')
   \<and> analyzeScript parse_empty_array_only (respond (Fulfilled (Some ''not json''))) ''Alice waves.''
        = Rejected (SyntaxError ''Unexpected token'')"
proof -
  have a: "respond (Fulfilled None) (analyzeScript_contents ''Alice waves.'') = Fulfilled None"
    by (simp add: respond_def)
  have b: "parse_empty_array_only ''[]'' = Inr []" by (simp add: parse_empty_array_only_def)
  have c: "respond (Fulfilled (Some ''not json'')) (analyzeScript_contents ''Alice waves.'')
        = Fulfilled (Some ''not json'')" by (simp add: respond_def)
  have d: "parse_empty_array_only ''not json'' = Inl (SyntaxError ''Unexpected token'')"
    by (simp add: parse_empty_array_only_def)
  have n: "''not json'' \<noteq> []" by simp
  have t: "\<not> truthy None" by simp
  from analyzeScript_fallback_scope [where generateContent = "respond (Fulfilled None)"
      and script' = "''Alice waves.''" and text' = None and JSON_parse = parse_empty_array_only, OF a] t b
  have r1: "analyzeScript parse_empty_array_only (respond (Fulfilled None)) ''Alice waves.'' = Fulfilled []"
    by blast
  from analyzeScript_fallback_scope [where generateContent = "respond (Fulfilled (Some ''not json''))"
      and script' = "''Alice waves.''" and text' = "Some ''not json''"
      and JSON_parse = parse_empty_array_only, OF c] n d
  have r2: "analyzeScript parse_empty_array_only (respond (Fulfilled (Some ''not json''))) ''Alice waves.''
        = Rejected (SyntaxError ''Unexpected token'')"
    by blast
  from a t b r1 c n d r2 show ?thesis by blast
qed

text \<open>
  C2 as stated fails for the response text \<^verbatim>\<open>not json\<close>: it is not valid JSON, and
  \<^verbatim>\<open>analyzeScript\<close> is rejected with the \<^verbatim>\<open>SyntaxError\<close> instead of giving the empty list.
\<close>

theorem analyzeScript_invalid_json_fails:
  "parse_empty_array_only ''not json'' = Inl (SyntaxError ''Unexpected token'')
   \<and> analyzeScript parse_empty_array_only (respond (Fulfilled (Some ''not json''))) ''Alice waves.''
        = Rejected (SyntaxError ''Unexpected token'')
   \<and> analyzeScript parse_empty_array_only (respond (Fulfilled (Some ''not json''))) ''Alice waves.''
        \<noteq> Fulfilled []"
  by (simp add: analyzeScript_def respond_def parse_empty_array_only_def or_else_def)

section \<open>Local edits of the project\<close>

lemma toggle_twice_comp:
  "map ((\<lambda>s. if id_scene s = sid then s\<lparr>isApproved := \<not> isApproved s\<rparr> else s)
        \<circ> (\<lambda>s. if id_scene s = sid then s\<lparr>isApproved := \<not> isApproved s\<rparr> else s)) ss = ss"
  by (induction ss) auto

lemma callsOf_append: "callsOf (xs @ ys) = callsOf xs @ callsOf ys"
  by (induction xs rule: callsOf.induct) auto

lemma commitsOf_append: "commitsOf (xs @ ys) = commitsOf xs @ commitsOf ys"
  by (induction xs rule: commitsOf.induct) auto

text \<open>
  C7. Toggling the approval of a scene twice gives back the project as it was, so every flag
  has its original value; one toggle negates the flag of the scenes with that identifier
  and no other. A toggle adds no call of the service layer to the log and leaves the
  loading flag, the error and the credential flag alone.
\<close>

theorem approve_twice_restores:
  "project (handleApproveScene sceneId (handleApproveScene sceneId st)) = project st
   \<and> callsOf (trace (handleApproveScene sceneId st)) = callsOf (trace st)
   \<and> loading (handleApproveScene sceneId st) = loading st
   \<and> error (handleApproveScene sceneId st) = error st
   \<and> hasApiKey (handleApproveScene sceneId st) = hasApiKey st
   \<and> (case project st of
        None \<Rightarrow> project (handleApproveScene sceneId st) = None
      | Some p \<Rightarrow> map_option (map isApproved \<circ> scenes) (project (handleApproveScene sceneId st))
          = Some (map (\<lambda>s. if id_scene s = sceneId then \<not> isApproved s else isApproved s) (scenes p)))"
  by (cases "project st")
     (auto simp: handleApproveScene_def setProject_def callsOf_append toggle_twice_comp Let_def)

section \<open>Prompt edits and final-video production\<close>

text \<open>
  C8. Editing the visual prompt of a scene replaces the \<^verbatim>\<open>storyboardPrompt\<close> of the scenes with
  that identifier and nothing else: identifier, order, description, dialogue, image, video
  and audio references and approval of every scene are as before, a scene with another
  identifier is unchanged as a whole, the title and script of the project too, no call of
  the service layer is logged, and the loading flag, the error and the credential flag
  stay as they were.
\<close>

theorem update_prompt_frame:
  assumes "project st = Some p"
  shows "\<exists>p'. project (handleUpdatePrompt sceneId newPrompt st) = Some p'
     \<and> title p' = title p \<and> script p' = script p
     \<and> length (scenes p') = length (scenes p)
     \<and> (\<forall>i < length (scenes p).
           (id_scene (scenes p ! i) = sceneId \<longrightarrow>
              scenes p' ! i = (scenes p ! i)\<lparr>storyboardPrompt := Some newPrompt\<rparr>)
         \<and> (id_scene (scenes p ! i) \<noteq> sceneId \<longrightarrow> scenes p' ! i = scenes p ! i)
         \<and> id_scene (scenes p' ! i) = id_scene (scenes p ! i)
         \<and> order (scenes p' ! i) = order (scenes p ! i)
         \<and> description (scenes p' ! i) = description (scenes p ! i)
         \<and> dialogue (scenes p' ! i) = dialogue (scenes p ! i)
         \<and> storyboardImageUrl (scenes p' ! i) = storyboardImageUrl (scenes p ! i)
         \<and> videoUrl (scenes p' ! i) = videoUrl (scenes p ! i)
         \<and> audioUrl (scenes p' ! i) = audioUrl (scenes p ! i)
         \<and> isApproved (scenes p' ! i) = isApproved (scenes p ! i))
     \<and> callsOf (trace (handleUpdatePrompt sceneId newPrompt st)) = callsOf (trace st)
     \<and> loading (handleUpdatePrompt sceneId newPrompt st) = loading st
     \<and> error (handleUpdatePrompt sceneId newPrompt st) = error st
     \<and> hasApiKey (handleUpdatePrompt sceneId newPrompt st) = hasApiKey st"
  using assms
  by (simp add: handleUpdatePrompt_def setProject_def callsOf_append Let_def)

text \<open>
  C9. When there is no project, or the scene found for the identifier lacks a storyboard
  image, or no scene has the identifier, a request for final-video production returns the
  state as it was: project, loading flag, error and log (so no call is issued).
\<close>

theorem final_video_without_image_is_noop:
  assumes "project st = None
         \<or> (\<exists>p. project st = Some p
              \<and> (\<forall>scene. find (\<lambda>s. id_scene s = sceneId) (scenes p) = Some scene
                    \<longrightarrow> \<not> truthy (storyboardImageUrl scene)))"
  shows "handleGenerateFinalVideo a sceneId st = st"
  using assms
  by (auto simp: handleGenerateFinalVideo_def split: option.splits)

lemma Promise_all_Fulfilled:
  "Promise_all w v u = Fulfilled r \<longleftrightarrow> (\<exists>x y. v = Fulfilled x \<and> u = Fulfilled y \<and> r = (x, y))"
  by (cases "(w, v, u)" rule: Promise_all.cases) auto

lemma Promise_all_Rejected:
  "(\<exists>e. Promise_all w v u = Rejected e) \<longleftrightarrow> ((\<exists>e. v = Rejected e) \<or> (\<exists>e. u = Rejected e))"
  by (cases "(w, v, u)" rule: Promise_all.cases) auto

lemma Promise_all_Rejected_source:
  "Promise_all w v u = Rejected e \<Longrightarrow> v = Rejected e \<or> u = Rejected e"
  by (cases "(w, v, u)" rule: Promise_all.cases) (auto split: if_splits)

lemma startsWith_iff: "startsWith s sub \<longleftrightarrow> (\<exists>post. s = sub @ post)"
  by (induction s sub rule: startsWith.induct) auto

lemma includes_str_iff: "includes_str s sub \<longleftrightarrow> (\<exists>pre post. s = pre @ sub @ post)"
proof (induction s)
  case Nil
  then show ?case by auto
next
  case (Cons d ds)
  show ?case
  proof
    assume "includes_str (d # ds) sub"
    then consider "startsWith (d # ds) sub" | "includes_str ds sub" by auto
    then show "\<exists>pre post. d # ds = pre @ sub @ post"
    proof cases
      case 1
      then obtain post where "d # ds = sub @ post" by (auto simp: startsWith_iff)
      then have "d # ds = [] @ sub @ post" by simp
      then show ?thesis by blast
    next
      case 2
      then obtain pre post where "ds = pre @ sub @ post" using Cons.IH by blast
      then have "d # ds = (d # pre) @ sub @ post" by simp
      then show ?thesis by blast
    qed
  next
    assume "\<exists>pre post. d # ds = pre @ sub @ post"
    then obtain pre post where e: "d # ds = pre @ sub @ post" by blast
    show "includes_str (d # ds) sub"
    proof (cases pre)
      case Nil
      with e have "startsWith (d # ds) sub" by (auto simp: startsWith_iff)
      then show ?thesis by simp
    next
      case (Cons x pre')
      with e have "ds = pre' @ sub @ post" by simp
      then have "includes_str ds sub" using Cons.IH by blast
      then show ?thesis by simp
    qed
  qed
qed

text \<open>
  C4. For a scene that has a storyboard image, final-video production logs the video request
  and the speech request, both before either outcome is looked at. When both are
  fulfilled there is one commit, which sets \<^verbatim>\<open>videoUrl\<close> and \<^verbatim>\<open>audioUrl\<close> of the scene together.
  When either is rejected there is no commit, the project is as before, the loading flag
  is cleared and an error is set. Whenever one of the two is not fulfilled the project is
  unchanged.
\<close>

theorem final_video_all_or_nothing:
  assumes p: "project st = Some p"
    and f: "find (\<lambda>s. id_scene s = sceneId) (scenes p) = Some scene"
    and img: "truthy (storyboardImageUrl scene)"
    and v: "api_generateSceneVideo a (length (trace st))
                  (or_else (storyboardPrompt scene) (description scene))
                  (or_else (storyboardImageUrl scene) []) = v"
    and u: "api_generateDialogueSpeech a (length (trace st) + 1) (dialogue scene) = u"
    and r: "st' = handleGenerateFinalVideo a sceneId st"
  shows "take (length (trace st) + 2) (trace st')
           = trace st @ [Call (GenerateSceneVideo (or_else (storyboardPrompt scene) (description scene))
                                (or_else (storyboardImageUrl scene) [])),
                         Call (GenerateDialogueSpeech (dialogue scene))]
       \<and> (\<forall>videoUrl' audioUrl'. v = Fulfilled videoUrl' \<longrightarrow> u = Fulfilled audioUrl' \<longrightarrow>
             project st' = Some (p\<lparr>scenes :=
                 map (\<lambda>s. if id_scene s = sceneId
                           then s\<lparr>videoUrl := Some videoUrl', audioUrl := Some audioUrl'\<rparr> else s)
                   (scenes p)\<rparr>)
           \<and> drop (length (trace st) + 2) (trace st') = [Commit (project st')]
           \<and> loading st' = None \<and> error st' = error st)
       \<and> ((\<exists>e. v = Rejected e) \<or> (\<exists>e. u = Rejected e) \<longrightarrow>
             project st' = project st
           \<and> drop (length (trace st) + 2) (trace st') = []
           \<and> loading st' = None \<and> error st' \<noteq> None)
       \<and> ((\<nexists>x. v = Fulfilled x) \<or> (\<nexists>y. u = Fulfilled y) \<longrightarrow>
             project st' = project st \<and> commitsOf (trace st') = commitsOf (trace st))"
proof -
  show ?thesis
    unfolding r using p f img v u
    by (cases v; cases u)
       (simp_all add: handleGenerateFinalVideo_def Let_def logCall_def setProject_def
          commitsOf_append)
qed

text \<open>
  C5. When final-video production fails with an error whose message contains
  ``Requested entity was not found'', the credential flag becomes false and the error is the
  re-authentication message. When the message does not contain it, the error is the message
  (or the default text for an empty message) and the credential flag is unchanged. In both
  cases the loading flag is cleared and the project is unchanged.
\<close>

theorem final_video_session_expiry:
  assumes p: "project st = Some p"
    and f: "find (\<lambda>s. id_scene s = sceneId) (scenes p) = Some scene"
    and img: "truthy (storyboardImageUrl scene)"
    and w: "Promise_all (videoSettlesFirst a (length (trace st)))
              (api_generateSceneVideo a (length (trace st))
                  (or_else (storyboardPrompt scene) (description scene))
                  (or_else (storyboardImageUrl scene) []))
              (api_generateDialogueSpeech a (length (trace st) + 1) (dialogue scene))
            = Rejected err"
    and r: "st' = handleGenerateFinalVideo a sceneId st"
  shows "((\<exists>pre post. message err = pre @ ''Requested entity was not found'' @ post) \<longrightarrow>
            hasApiKey st' = False
          \<and> error st' = Some ''API Session expired. Please re-select your key.'')
       \<and> ((\<nexists>pre post. message err = pre @ ''Requested entity was not found'' @ post) \<longrightarrow>
            hasApiKey st' = hasApiKey st
          \<and> error st' = Some (if message err = [] then ''Animation generation failed''
                                else message err))
       \<and> loading st' = None \<and> project st' = project st"
proof -
  show ?thesis
    unfolding r using p f img w
    by (simp add: handleGenerateFinalVideo_def Let_def logCall_def setProject_def
          includes_str_iff js_or_def)
qed

section \<open>Script submission\<close>

lemma length_mapScenes: "length (mapScenes uuid k idx segs) = length segs"
  by (induction segs arbitrary: k idx) auto

lemma nth_mapScenes:
  "i < length segs \<Longrightarrow>
   mapScenes uuid k idx segs ! i =
     \<lparr> id_scene = uuid (k + i),
       order = (case seg_order (segs ! i) of
                  None \<Rightarrow> int (idx + i) + 1
                | Some n \<Rightarrow> if n = 0 then int (idx + i) + 1 else n),
       description = seg_description (segs ! i),
       dialogue = seg_dialogue (segs ! i),
       storyboardImageUrl = None,
       storyboardPrompt = Some (seg_description (segs ! i)),
       videoUrl = None,
       audioUrl = None,
       isApproved = False \<rparr>"
proof (induction segs arbitrary: k idx i)
  case Nil
  then show ?case by simp
next
  case (Cons s rest)
  show ?case
  proof (cases i)
    case 0
    then show ?thesis by (simp split: option.splits)
  next
    case (Suc j)
    with Cons.prems have "j < length rest" by simp
    from Cons.IH [OF this, of "k + 1" "idx + 1"] Suc show ?thesis
      by (simp split: option.splits)
  qed
qed

lemma inj_randomUUID: "inj (randomUUID a)"
proof -
  have "inj (Rep_uuid_source (uuids a))" using Rep_uuid_source [of "uuids a"] by simp
  moreover have "randomUUID a = Rep_uuid_source (uuids a)"
    by (rule ext) (simp add: randomUUID_def)
  ultimately show ?thesis by simp
qed

lemma randomUUID_fixed_api:
  "randomUUID (fixed_api analysis image' video audio) k = replicate k CHR ''x''"
proof -
  have "inj (\<lambda>k. replicate k CHR ''x'')"
    by (auto intro!: injI dest: arg_cong [where f = length])
  then show ?thesis
    by (simp add: randomUUID_def fixed_api_def Abs_uuid_source_inverse)
qed

lemma ids_mapScenes: "map id_scene (mapScenes uuid k idx segs) = map uuid [k ..< k + length segs]"
proof (induction segs arbitrary: k idx)
  case Nil
  then show ?case by simp
next
  case (Cons s rest)
  have "[k ..< k + length (s # rest)] = k # [k + 1 ..< (k + 1) + length rest]"
    by (subst upt_rec) simp
  with Cons.IH [of "k + 1" "idx + 1"] show ?case by simp
qed

text \<open>
  C6, as the code has it. After a successful analysis with \<open>N\<close> segments the project has
  exactly \<open>N\<close> scenes, in the order of the segments. Scene \<open>i\<close> (from 0) has the \<open>i\<close>-th identifier
  drawn by \<^verbatim>\<open>crypto.randomUUID()\<close>, is not approved, has no media, and its order is the
  provider's value when that is present and not 0, and \<open>i + 1\<close> when it is absent or 0. The
  identifiers are pairwise distinct: each scene has a draw of its own.
\<close>

theorem script_submit_scenes:
  assumes t: "trim (scriptInput st) \<noteq> []"
    and an: "api_analyzeScript a (length (trace st)) (scriptInput st) = Fulfilled sceneData"
    and r: "st' = handleScriptSubmit a st"
  shows "\<exists>ss. project st' = Some \<lparr>title = ''My New Animation'', script = scriptInput st, scenes = ss\<rparr>
      \<and> length ss = length sceneData
      \<and> (\<forall>i < length sceneData.
            id_scene (ss ! i) = randomUUID a (uuidsDrawn st + i)
          \<and> isApproved (ss ! i) = False
          \<and> order (ss ! i) = (case seg_order (sceneData ! i) of
                                 None \<Rightarrow> int i + 1
                               | Some n \<Rightarrow> if n = 0 then int i + 1 else n)
          \<and> description (ss ! i) = seg_description (sceneData ! i)
          \<and> dialogue (ss ! i) = seg_dialogue (sceneData ! i)
          \<and> storyboardPrompt (ss ! i) = Some (seg_description (sceneData ! i))
          \<and> storyboardImageUrl (ss ! i) = None
          \<and> videoUrl (ss ! i) = None
          \<and> audioUrl (ss ! i) = None)
      \<and> distinct (map id_scene ss)
      \<and> loading st' = None \<and> error st' = error st"
proof -
  let ?ss = "mapScenes (randomUUID a) (uuidsDrawn st) 0 sceneData"
  have pr: "project st' = Some \<lparr>title = ''My New Animation'', script = scriptInput st, scenes = ?ss\<rparr>"
    and l: "loading st' = None" and e: "error st' = error st"
    unfolding r using t an
    by (simp_all add: handleScriptSubmit_def Let_def logCall_def setProject_def)
  have len: "length ?ss = length sceneData" by (rule length_mapScenes)
  have fields: "\<forall>i < length sceneData.
            id_scene (?ss ! i) = randomUUID a (uuidsDrawn st + i)
          \<and> isApproved (?ss ! i) = False
          \<and> order (?ss ! i) = (case seg_order (sceneData ! i) of
                                 None \<Rightarrow> int i + 1
                               | Some n \<Rightarrow> if n = 0 then int i + 1 else n)
          \<and> description (?ss ! i) = seg_description (sceneData ! i)
          \<and> dialogue (?ss ! i) = seg_dialogue (sceneData ! i)
          \<and> storyboardPrompt (?ss ! i) = Some (seg_description (sceneData ! i))
          \<and> storyboardImageUrl (?ss ! i) = None
          \<and> videoUrl (?ss ! i) = None
          \<and> audioUrl (?ss ! i) = None"
    by (simp add: nth_mapScenes split: option.splits)
  have d: "distinct (map id_scene ?ss)"
    by (simp add: ids_mapScenes distinct_map inj_on_subset [OF inj_randomUUID])
  from pr len fields d l e show ?thesis by blast
qed

section \<open>The chat history\<close>

text \<open>
  C10. \<^verbatim>\<open>chatWithGemini\<close> reads the last message without a guard: on the empty history it is
  rejected with the \<^verbatim>\<open>TypeError\<close> of reading \<^verbatim>\<open>.text\<close> of \<^verbatim>\<open>undefined\<close>, and on a history that
  ends with a message it sends the text of that message. \<^verbatim>\<open>handleSend\<close> does nothing on a
  blank input; otherwise the one call it makes passes the history followed by the new user
  message, which is not empty, so what the handler leaves behind is decided by the
  provider's answer to the new input alone: the reply (or the fallback text) after a
  fulfilled request, the error bubble after a rejected one, the typing flag still set
  after one that never settles. A log without an empty history stays so.
\<close>

theorem chat_history_never_empty:
  "chatWithGemini send [] = Rejected (TypeError ''Cannot read properties of undefined (reading 'text')'')
   \<and> chatWithGemini send (ms @ [m]) =
        (case send (text_msg m) of
           Rejected e \<Rightarrow> Rejected e
         | Pending \<Rightarrow> Pending
         | Fulfilled t \<Rightarrow> Fulfilled (or_else t ''Sorry, I couldn't process that.''))
   \<and> (trim (input st) = [] \<longrightarrow> handleSend sendMessage st = st)
   \<and> (trim (input st) \<noteq> [] \<longrightarrow>
        handleSend sendMessage st =
          (case sendMessage (length (sent st)) (input st) of
             Pending \<Rightarrow>
               st\<lparr>messages := messages st @ [\<lparr>role = RoleUser, text_msg = input st\<rparr>],
                  input := [], isTyping := True,
                  sent := sent st @ [messages st @ [\<lparr>role = RoleUser, text_msg = input st\<rparr>]]\<rparr>
           | Fulfilled t \<Rightarrow>
               st\<lparr>messages := messages st
                     @ [\<lparr>role = RoleUser, text_msg = input st\<rparr>,
                        \<lparr>role = RoleModel, text_msg = or_else t ''Sorry, I couldn't process that.''\<rparr>],
                  input := [], isTyping := False,
                  sent := sent st @ [messages st @ [\<lparr>role = RoleUser, text_msg = input st\<rparr>]]\<rparr>
           | Rejected e \<Rightarrow>
               st\<lparr>messages := messages st
                     @ [\<lparr>role = RoleUser, text_msg = input st\<rparr>,
                        \<lparr>role = RoleModel, text_msg = ''Error: Could not reach the AI assistant.''\<rparr>],
                  input := [], isTyping := False,
                  sent := sent st @ [messages st @ [\<lparr>role = RoleUser, text_msg = input st\<rparr>]]\<rparr>))
   \<and> snd (api_chatWithGemini sendMessage history st) = st\<lparr>sent := sent st @ [history]\<rparr>
   \<and> fst (api_chatWithGemini sendMessage history st)
        = chatWithGemini (sendMessage (length (sent st))) history
   \<and> sent (handleSend sendMessage st) =
        (if trim (input st) = [] then sent st
         else sent st @ [messages st @ [\<lparr>role = RoleUser, text_msg = input st\<rparr>]])
   \<and> ((\<forall>h \<in> set (sent st). h \<noteq> []) \<longrightarrow> (\<forall>h \<in> set (sent (handleSend sendMessage st)). h \<noteq> []))"
proof -
  have 1: "chatWithGemini send [] = Rejected (TypeError ''Cannot read properties of undefined (reading 'text')'')"
    by (simp add: chatWithGemini_def)
  have 2: "chatWithGemini send (ms @ [m]) =
        (case send (text_msg m) of
           Rejected e \<Rightarrow> Rejected e
         | Pending \<Rightarrow> Pending
         | Fulfilled t \<Rightarrow> Fulfilled (or_else t ''Sorry, I couldn't process that.''))"
    for send ms m
    by (simp add: chatWithGemini_def)
  have blank: "trim (input st) = [] \<longrightarrow> handleSend sendMessage st = st"
    by (simp add: handleSend_def)
  have run: "trim (input st) \<noteq> [] \<longrightarrow>
        handleSend sendMessage st =
          (case sendMessage (length (sent st)) (input st) of
             Pending \<Rightarrow>
               st\<lparr>messages := messages st @ [\<lparr>role = RoleUser, text_msg = input st\<rparr>],
                  input := [], isTyping := True,
                  sent := sent st @ [messages st @ [\<lparr>role = RoleUser, text_msg = input st\<rparr>]]\<rparr>
           | Fulfilled t \<Rightarrow>
               st\<lparr>messages := messages st
                     @ [\<lparr>role = RoleUser, text_msg = input st\<rparr>,
                        \<lparr>role = RoleModel, text_msg = or_else t ''Sorry, I couldn't process that.''\<rparr>],
                  input := [], isTyping := False,
                  sent := sent st @ [messages st @ [\<lparr>role = RoleUser, text_msg = input st\<rparr>]]\<rparr>
           | Rejected e \<Rightarrow>
               st\<lparr>messages := messages st
                     @ [\<lparr>role = RoleUser, text_msg = input st\<rparr>,
                        \<lparr>role = RoleModel, text_msg = ''Error: Could not reach the AI assistant.''\<rparr>],
                  input := [], isTyping := False,
                  sent := sent st @ [messages st @ [\<lparr>role = RoleUser, text_msg = input st\<rparr>]]\<rparr>)"
    by (cases "sendMessage (length (sent st)) (input st)")
       (simp_all add: handleSend_def api_chatWithGemini_def Let_def 2)
  have s: "snd (api_chatWithGemini sendMessage history st) = st\<lparr>sent := sent st @ [history]\<rparr>"
    and f: "fst (api_chatWithGemini sendMessage history st)
        = chatWithGemini (sendMessage (length (sent st))) history"
    by (simp_all add: api_chatWithGemini_def)
  have 3: "sent (handleSend sendMessage st) =
        (if trim (input st) = [] then sent st
         else sent st @ [messages st @ [\<lparr>role = RoleUser, text_msg = input st\<rparr>]])"
    using blank run by (cases "sendMessage (length (sent st)) (input st)") auto
  have 4: "(\<forall>h \<in> set (sent st). h \<noteq> []) \<longrightarrow> (\<forall>h \<in> set (sent (handleSend sendMessage st)). h \<noteq> [])"
    unfolding 3 by auto
  from 1 2 [of send ms m] blank run s f 3 4 show ?thesis
    by (simp only: simp_thms)
qed

section \<open>Bulk generation\<close>

lemma fill_Nil: "fill [] ss = ss"
  by (cases ss) auto

lemma fill_has_image: "\<not> lacksImage s \<Longrightarrow> fill urls (s # ss) = s # fill urls ss"
  by (cases urls) (auto simp: fill_Nil)

lemma length_fill: "length (fill urls ss) = length ss"
  by (induction urls ss rule: fill.induct) auto

lemma fill_frame:
  "j < length ss \<Longrightarrow> \<not> lacksImage (ss ! j) \<Longrightarrow> fill urls ss ! j = ss ! j"
proof (induction urls ss arbitrary: j rule: fill.induct)
  case (3 u us s ss)
  then show ?case by (cases j) auto
qed auto

lemma fill_changes_image_only:
  "j < length ss \<Longrightarrow>
   fill urls ss ! j = ss ! j \<or> (\<exists>u \<in> set urls. fill urls ss ! j = (ss ! j)\<lparr>storyboardImageUrl := Some u\<rparr>)"
proof (induction urls ss arbitrary: j rule: fill.induct)
  case (3 u us s ss)
  then show ?case by (cases j) auto
qed auto

lemma bulk_events_skip:
  assumes "\<not> lacksImage s"
  shows "bulk_events q sz before (s # rest) urls = bulk_events q sz (before @ [s]) rest urls"
  using assms by (simp add: bulk_events_def fill_has_image)

lemma bulk_events_stop:
  assumes "lacksImage s"
  shows "bulk_events q sz before (s # rest) [] = [Call (GenerateStoryboardImage (imagePrompt s) sz)]"
  using assms by (simp add: bulk_events_def)

lemma bulk_events_step:
  assumes "lacksImage s" and "q' = q\<lparr>scenes := any\<rparr>"
  shows "bulk_events q sz before (s # rest) (u # urls) =
           Call (GenerateStoryboardImage (imagePrompt s) sz)
         # Commit (Some (q\<lparr>scenes := before @ s\<lparr>storyboardImageUrl := Some u\<rparr> # rest\<rparr>))
         # bulk_events q' sz (before @ [s\<lparr>storyboardImageUrl := Some u\<rparr>]) rest urls"
  using assms by (simp add: bulk_events_def map_upt_Suc fill_Nil del: upt_Suc)

lemma loop_done:
  "length us \<le> i \<Longrightarrow> handleGenerateAllStoryboards_loop a sz i us st = (Normal, st)"
  by (subst handleGenerateAllStoryboards_loop.simps) simp

lemma loop_skip:
  "i < length us \<Longrightarrow> \<not> lacksImage (us ! i) \<Longrightarrow>
   handleGenerateAllStoryboards_loop a sz i us st = handleGenerateAllStoryboards_loop a sz (Suc i) us st"
  by (subst handleGenerateAllStoryboards_loop.simps) (simp add: lacksImage_def)

lemma loop_call:
  assumes "i < length us" and "lacksImage (us ! i)"
  shows "handleGenerateAllStoryboards_loop a sz i us st =
     (let st2 = logCall (GenerateStoryboardImage (imagePrompt (us ! i)) sz)
                  (st\<lparr>loading := Some (''Generating sketch for Scene ''
                                       @ string_of_int (order (us ! i)) @ ''...'')\<rparr>)
      in case api_generateStoryboardImage a (length (trace st)) (imagePrompt (us ! i)) sz of
           Pending \<Rightarrow> (Suspended, st2)
         | Rejected err \<Rightarrow> (Throw err, st2)
         | Fulfilled imageUrl \<Rightarrow>
             handleGenerateAllStoryboards_loop a sz (Suc i)
               (us[i := (us ! i)\<lparr>storyboardImageUrl := Some imageUrl\<rparr>])
               (setProject (case project st2 of
                              Some prev \<Rightarrow> Some (prev\<lparr>scenes := us[i := (us ! i)\<lparr>storyboardImageUrl := Some imageUrl\<rparr>]\<rparr>)
                            | None \<Rightarrow> None) st2))"
  using assms
  by (subst handleGenerateAllStoryboards_loop.simps)
     (simp add: lacksImage_def imagePrompt_def Let_def split: promise.splits)

lemma bulk_outcome_skip:
  assumes "\<not> lacksImage s"
    and "bulk_outcome a sz q (before @ [s]) rest st R urls"
  shows "bulk_outcome a sz q before (s # rest) st R urls"
  using assms
  by (cases "fst R") (simp_all add: bulk_outcome_def bulk_events_skip fill_has_image)

lemma bulk_outcome_stop:
  assumes "lacksImage s"
    and "api_generateStoryboardImage a (length (trace st)) (imagePrompt s) sz = r"
    and "r = Pending \<and> c = Suspended \<and> loading st2 \<noteq> None \<or> (\<exists>err. r = Rejected err \<and> c = Throw err)"
    and "trace st2 = trace st @ [Call (GenerateStoryboardImage (imagePrompt s) sz)]"
    and "project st2 = Some q" and "error st2 = error st" and "hasApiKey st2 = hasApiKey st"
  shows "bulk_outcome a sz q before (s # rest) st (c, st2) []"
  using assms
  by (auto simp: bulk_outcome_def bulk_events_stop)

lemma bulk_outcome_step:
  assumes s: "lacksImage s"
    and r: "api_generateStoryboardImage a (length (trace st)) (imagePrompt s) sz = Fulfilled u"
    and q': "q' = q\<lparr>scenes := before @ s\<lparr>storyboardImageUrl := Some u\<rparr> # rest\<rparr>"
    and tr: "trace st3 = trace st @ [Call (GenerateStoryboardImage (imagePrompt s) sz), Commit (Some q')]"
    and e: "error st3 = error st" and k: "hasApiKey st3 = hasApiKey st"
    and IH: "bulk_outcome a sz q' (before @ [s\<lparr>storyboardImageUrl := Some u\<rparr>]) rest st3 R urls"
  shows "bulk_outcome a sz q before (s # rest) st R (u # urls)"
proof -
  let ?lack = "filter lacksImage rest"
  from IH have len: "length urls \<le> length ?lack"
    and calls: "\<forall>n < length urls.
         api_generateStoryboardImage a (length (trace st3) + 2 * n)
           (imagePrompt (?lack ! n)) sz = Fulfilled (urls ! n)"
    and t: "trace (snd R) = trace st3 @ bulk_events q' sz (before @ [s\<lparr>storyboardImageUrl := Some u\<rparr>]) rest urls"
    and p: "project (snd R) =
       (if urls = [] then Some q'
        else Some (q'\<lparr>scenes := (before @ [s\<lparr>storyboardImageUrl := Some u\<rparr>]) @ fill urls rest\<rparr>))"
    and e': "error (snd R) = error st3" and k': "hasApiKey (snd R) = hasApiKey st3"
    and c: "(case fst R of
         Normal \<Rightarrow> length urls = length ?lack
       | Throw err \<Rightarrow>
           length urls < length ?lack
         \<and> api_generateStoryboardImage a (length (trace st3) + 2 * length urls)
             (imagePrompt (?lack ! length urls)) sz = Rejected err
       | Suspended \<Rightarrow>
           length urls < length ?lack
         \<and> api_generateStoryboardImage a (length (trace st3) + 2 * length urls)
             (imagePrompt (?lack ! length urls)) sz = Pending
         \<and> loading (snd R) \<noteq> None)"
    by (simp_all add: bulk_outcome_def)
  have l3: "length (trace st3) = length (trace st) + 2" using tr by simp
  have 1: "length (u # urls) \<le> length (filter lacksImage (s # rest))" using s len by simp
  have 2: "\<forall>n < length (u # urls).
         api_generateStoryboardImage a (length (trace st) + 2 * n)
           (imagePrompt (filter lacksImage (s # rest) ! n)) sz = Fulfilled ((u # urls) ! n)"
  proof (intro allI impI)
    fix n assume n: "n < length (u # urls)"
    show "api_generateStoryboardImage a (length (trace st) + 2 * n)
           (imagePrompt (filter lacksImage (s # rest) ! n)) sz = Fulfilled ((u # urls) ! n)"
    proof (cases n)
      case 0
      then show ?thesis using s r by simp
    next
      case (Suc m)
      with n have "m < length urls" by simp
      with calls have "api_generateStoryboardImage a (length (trace st3) + 2 * m)
           (imagePrompt (?lack ! m)) sz = Fulfilled (urls ! m)" by blast
      then show ?thesis using Suc s l3 by (simp add: add.commute add.left_commute)
    qed
  qed
  have 3: "trace (snd R) = trace st @ bulk_events q sz before (s # rest) (u # urls)"
    using t tr q' bulk_events_step [OF s q'] by simp
  have 4: "project (snd R) =
       (if u # urls = [] then Some q else Some (q\<lparr>scenes := before @ fill (u # urls) (s # rest)\<rparr>))"
    using p s q' by (simp add: fill_Nil)
  have 5: "(case fst R of
         Normal \<Rightarrow> length (u # urls) = length (filter lacksImage (s # rest))
       | Throw err \<Rightarrow>
           length (u # urls) < length (filter lacksImage (s # rest))
         \<and> api_generateStoryboardImage a (length (trace st) + 2 * length (u # urls))
             (imagePrompt (filter lacksImage (s # rest) ! length (u # urls))) sz = Rejected err
       | Suspended \<Rightarrow>
           length (u # urls) < length (filter lacksImage (s # rest))
         \<and> api_generateStoryboardImage a (length (trace st) + 2 * length (u # urls))
             (imagePrompt (filter lacksImage (s # rest) ! length (u # urls))) sz = Pending
         \<and> loading (snd R) \<noteq> None)"
    using c s l3 by (cases "fst R") (simp_all add: add.commute add.left_commute)
  from 1 2 3 4 5 e e' k k' show ?thesis
    unfolding bulk_outcome_def by simp
qed

lemma loop_outcome:
  assumes "i \<le> length us" and "project st = Some q"
  shows "\<exists>urls. bulk_outcome a sz q (take i us) (drop i us) st
                  (handleGenerateAllStoryboards_loop a sz i us st) urls"
  using assms
proof (induction "length us - i" arbitrary: i us st q)
  case 0
  then have "length us \<le> i" by simp
  then have "handleGenerateAllStoryboards_loop a sz i us st = (Normal, st)"
    and "drop i us = []"
    by (simp_all add: loop_done)
  with 0 have "bulk_outcome a sz q (take i us) (drop i us) st
                 (handleGenerateAllStoryboards_loop a sz i us st) []"
    by (simp add: bulk_outcome_def bulk_events_def)
  then show ?case by blast
next
  case (Suc k)
  then have lt: "i < length us" by simp
  define s where "s = us ! i"
  have dr: "drop i us = s # drop (Suc i) us"
    using lt by (simp add: s_def Cons_nth_drop_Suc)
  have tk: "take (Suc i) us = take i us @ [s]"
    using lt by (simp add: s_def take_Suc_conv_app_nth)
  have k: "k = length us - Suc i" using Suc.hyps(2) by simp
  show ?case
  proof (cases "lacksImage s")
    case False
    have "Suc i \<le> length us" using lt by simp
    from Suc.hyps(1) [OF k this Suc.prems(2)]
    obtain urls where "bulk_outcome a sz q (take (Suc i) us) (drop (Suc i) us) st
                  (handleGenerateAllStoryboards_loop a sz (Suc i) us st) urls" by blast
    then have "bulk_outcome a sz q (take i us) (s # drop (Suc i) us) st
                  (handleGenerateAllStoryboards_loop a sz i us st) urls"
      using False lt by (simp add: tk bulk_outcome_skip loop_skip s_def)
    then show ?thesis unfolding dr by blast
  next
    case True
    define st2 where "st2 = logCall (GenerateStoryboardImage (imagePrompt s) sz)
                  (st\<lparr>loading := Some (''Generating sketch for Scene ''
                                       @ string_of_int (order s) @ ''...'')\<rparr>)"
    have st2: "trace st2 = trace st @ [Call (GenerateStoryboardImage (imagePrompt s) sz)]"
      "project st2 = Some q" "error st2 = error st" "hasApiKey st2 = hasApiKey st"
      "loading st2 \<noteq> None"
      using Suc.prems(2) by (simp_all add: st2_def logCall_def)
    define r where "r = api_generateStoryboardImage a (length (trace st)) (imagePrompt s) sz"
    show ?thesis
    proof (cases r)
      case Pending
      then have "handleGenerateAllStoryboards_loop a sz i us st = (Suspended, st2)"
        using lt True by (simp add: loop_call s_def [symmetric] st2_def r_def [symmetric])
      moreover have "bulk_outcome a sz q (take i us) (s # drop (Suc i) us) st (Suspended, st2) []"
        using True Pending st2 by (intro bulk_outcome_stop [where r = r]) (simp_all add: r_def)
      ultimately show ?thesis unfolding dr by auto
    next
      case (Rejected err)
      then have "handleGenerateAllStoryboards_loop a sz i us st = (Throw err, st2)"
        using lt True by (simp add: loop_call s_def [symmetric] st2_def r_def [symmetric])
      moreover have "bulk_outcome a sz q (take i us) (s # drop (Suc i) us) st (Throw err, st2) []"
        using True Rejected st2 by (intro bulk_outcome_stop [where r = r]) (simp_all add: r_def)
      ultimately show ?thesis unfolding dr by auto
    next
      case (Fulfilled u)
      define s' where "s' = s\<lparr>storyboardImageUrl := Some u\<rparr>"
      define us' where "us' = us[i := s']"
      define q' where "q' = q\<lparr>scenes := us'\<rparr>"
      define st3 where "st3 = setProject (Some q') st2"
      have run: "handleGenerateAllStoryboards_loop a sz i us st
                 = handleGenerateAllStoryboards_loop a sz (Suc i) us' st3"
        using lt True Fulfilled Suc.prems(2)
        by (simp add: loop_call s_def [symmetric] r_def [symmetric] Let_def logCall_def
              st2_def s'_def us'_def q'_def st3_def)
      have us': "us' = take i us @ s' # drop (Suc i) us"
        using lt by (simp add: us'_def upd_conv_take_nth_drop)
      have len': "length us' = length us" by (simp add: us'_def)
      have tk': "take (Suc i) us' = take i us @ [s']"
        using lt by (simp add: us')
      have dr': "drop (Suc i) us' = drop (Suc i) us"
        using lt by (simp add: us')
      have st3: "trace st3 = trace st @ [Call (GenerateStoryboardImage (imagePrompt s) sz), Commit (Some q')]"
        "project st3 = Some q'" "error st3 = error st" "hasApiKey st3 = hasApiKey st"
        using st2 by (simp_all add: st3_def setProject_def)
      have k': "k = length us' - Suc i" using k len' by simp
      have "Suc i \<le> length us'" using lt len' by simp
      from Suc.hyps(1) [OF k' this st3(2)]
      obtain urls where "bulk_outcome a sz q' (take (Suc i) us') (drop (Suc i) us') st3
                  (handleGenerateAllStoryboards_loop a sz (Suc i) us' st3) urls" by blast
      then have IH: "bulk_outcome a sz q' (take i us @ [s']) (drop (Suc i) us) st3
                  (handleGenerateAllStoryboards_loop a sz i us st) urls"
        by (simp add: tk' dr' run)
      have q'': "q' = q\<lparr>scenes := take i us @ s\<lparr>storyboardImageUrl := Some u\<rparr> # drop (Suc i) us\<rparr>"
        by (simp add: q'_def us' s'_def)
      have rr: "api_generateStoryboardImage a (length (trace st)) (imagePrompt s) sz = Fulfilled u"
        using Fulfilled by (simp add: r_def)
      have "bulk_outcome a sz q (take i us) (s # drop (Suc i) us) st
                  (handleGenerateAllStoryboards_loop a sz i us st) (u # urls)"
        by (rule bulk_outcome_step [OF True rr q'' st3(1) st3(3) st3(4) IH [unfolded s'_def]])
      then show ?thesis unfolding dr by blast
    qed
  qed
qed

lemma callsOf_pairs: "callsOf (concat (map (\<lambda>n. [Call (c n), Commit (d n)]) ns)) = map c ns"
  by (induction ns) auto

lemma commitsOf_pairs: "commitsOf (concat (map (\<lambda>n. [Call (c n), Commit (d n)]) ns)) = map d ns"
  by (induction ns) auto

lemma map_nth_upt: "k \<le> length xs \<Longrightarrow> map (\<lambda>n. f (xs ! n)) [0 ..< k] = map f (take k xs)"
  by (simp add: list_eq_iff_nth_eq)

lemma callsOf_bulk_events:
  assumes "length urls \<le> length (filter lacksImage rest)"
  shows "callsOf (bulk_events q sz before rest urls)
       = map (\<lambda>s. GenerateStoryboardImage (imagePrompt s) sz)
           (take (Suc (length urls)) (filter lacksImage rest))"
proof -
  let ?lack = "filter lacksImage rest"
  let ?c = "\<lambda>s. GenerateStoryboardImage (imagePrompt s) sz"
  have a: "callsOf (concat (map (\<lambda>n. [Call (?c (?lack ! n)),
                        Commit (Some (q\<lparr>scenes := before @ fill (take (Suc n) urls) rest\<rparr>))])
               [0 ..< length urls])) = map ?c (take (length urls) ?lack)"
    using assms map_nth_upt [of "length urls" ?lack ?c] by (simp add: callsOf_pairs)
  show ?thesis
  proof (cases "length urls < length ?lack")
    case True
    then have "take (Suc (length urls)) ?lack = take (length urls) ?lack @ [?lack ! length urls]"
      by (simp add: take_Suc_conv_app_nth)
    with True a show ?thesis by (simp add: bulk_events_def callsOf_append)
  next
    case False
    with assms have "length urls = length ?lack" by simp
    with a show ?thesis by (simp add: bulk_events_def callsOf_append)
  qed
qed

lemma commitsOf_bulk_events:
  "commitsOf (bulk_events q sz before rest urls)
     = map (\<lambda>n. Some (q\<lparr>scenes := before @ fill (take (Suc n) urls) rest\<rparr>)) [0 ..< length urls]"
proof -
  have "commitsOf (concat (map (\<lambda>n. [Call (GenerateStoryboardImage (imagePrompt (filter lacksImage rest ! n)) sz),
                        Commit (Some (q\<lparr>scenes := before @ fill (take (Suc n) urls) rest\<rparr>))])
               [0 ..< length urls]))
      = map (\<lambda>n. Some (q\<lparr>scenes := before @ fill (take (Suc n) urls) rest\<rparr>)) [0 ..< length urls]"
    by (simp only: commitsOf_pairs)
  then show ?thesis by (simp add: bulk_events_def commitsOf_append)
qed

text \<open>
  C3. Bulk generation on project \<open>p\<close> obtains images \<open>urls\<close> for the first \<open>length urls\<close> scenes that
  lack one, taken in list order. The log grows by \<open>bulk_events\<close>: request, commit, request,
  commit, and so on, each request after the commit of the scene before, and at the end the
  one request that was rejected or never settled, if images are still missing. The requests
  are those of the scenes lacking an image, in list order, and no other; the \<open>n\<close>-th commit
  holds the first \<open>n + 1\<close> images. The project at the end holds all images obtained, also
  after a failure; a scene that had an image is unchanged, and any other scene differs at
  most in its image. The loop ends with the loading flag cleared and no new error when no
  image is missing, and otherwise by the provider's rejection (error set, loading flag
  cleared) or by a request that never settles.
\<close>

theorem bulk_generation_sequential:
  assumes p: "project st = Some p" and r: "st' = handleGenerateAllStoryboards a st"
  shows "\<exists>urls.
      length urls \<le> length (filter lacksImage (scenes p))
    \<and> (\<forall>n < length urls.
          api_generateStoryboardImage a (length (trace st) + 2 * n)
            (imagePrompt (filter lacksImage (scenes p) ! n)) (imageSize st) = Fulfilled (urls ! n))
    \<and> trace st' = trace st @ bulk_events p (imageSize st) [] (scenes p) urls
    \<and> callsOf (bulk_events p (imageSize st) [] (scenes p) urls)
        = map (\<lambda>s. GenerateStoryboardImage (imagePrompt s) (imageSize st))
            (take (Suc (length urls)) (filter lacksImage (scenes p)))
    \<and> commitsOf (bulk_events p (imageSize st) [] (scenes p) urls)
        = map (\<lambda>n. Some (p\<lparr>scenes := fill (take (Suc n) urls) (scenes p)\<rparr>)) [0 ..< length urls]
    \<and> project st' = Some (p\<lparr>scenes := fill urls (scenes p)\<rparr>)
    \<and> length (fill urls (scenes p)) = length (scenes p)
    \<and> (\<forall>j < length (scenes p). \<not> lacksImage (scenes p ! j) \<longrightarrow>
          fill urls (scenes p) ! j = scenes p ! j)
    \<and> (\<forall>j < length (scenes p).
          fill urls (scenes p) ! j = scenes p ! j
        \<or> (\<exists>u \<in> set urls. fill urls (scenes p) ! j = (scenes p ! j)\<lparr>storyboardImageUrl := Some u\<rparr>))
    \<and> hasApiKey st' = hasApiKey st
    \<and> (length urls = length (filter lacksImage (scenes p)) \<longrightarrow>
          loading st' = None \<and> error st' = error st)
    \<and> (length urls < length (filter lacksImage (scenes p)) \<longrightarrow>
          (\<exists>err. api_generateStoryboardImage a (length (trace st) + 2 * length urls)
                   (imagePrompt (filter lacksImage (scenes p) ! length urls)) (imageSize st)
                 = Rejected err
               \<and> error st' = Some (js_or (message err) ''Bulk generation failed'')
               \<and> loading st' = None)
        \<or> (api_generateStoryboardImage a (length (trace st) + 2 * length urls)
                   (imagePrompt (filter lacksImage (scenes p) ! length urls)) (imageSize st)
                 = Pending
               \<and> error st' = error st \<and> loading st' \<noteq> None))"
proof -
  define st1 where "st1 = st\<lparr>loading := Some ''Generating all storyboards sequentially...''\<rparr>"
  define R where "R = handleGenerateAllStoryboards_loop a (imageSize st) 0 (scenes p) st1"
  have st1: "project st1 = Some p" "trace st1 = trace st" "error st1 = error st"
    "hasApiKey st1 = hasApiKey st"
    using p by (simp_all add: st1_def)
  from loop_outcome [of 0 "scenes p" st1 p a "imageSize st"] st1(1)
  obtain urls where o: "bulk_outcome a (imageSize st) p [] (scenes p) st1 R urls"
    by (auto simp: R_def)
  let ?lack = "filter lacksImage (scenes p)"
  have len: "length urls \<le> length ?lack"
    using o by (simp add: bulk_outcome_def)
  have calls: "\<forall>n < length urls.
          api_generateStoryboardImage a (length (trace st) + 2 * n)
            (imagePrompt (?lack ! n)) (imageSize st) = Fulfilled (urls ! n)"
    using o by (simp add: bulk_outcome_def st1)
  have t: "trace (snd R) = trace st @ bulk_events p (imageSize st) [] (scenes p) urls"
    using o by (simp add: bulk_outcome_def st1)
  have "project (snd R) = (if urls = [] then Some p else Some (p\<lparr>scenes := fill urls (scenes p)\<rparr>))"
    using o by (simp add: bulk_outcome_def)
  then have pr: "project (snd R) = Some (p\<lparr>scenes := fill urls (scenes p)\<rparr>)"
    by (cases "urls = []") (simp_all add: fill_Nil)
  have e: "error (snd R) = error st" and k: "hasApiKey (snd R) = hasApiKey st"
    using o by (simp_all add: bulk_outcome_def st1)
  have c: "(case fst R of
         Normal \<Rightarrow> length urls = length ?lack
       | Throw err \<Rightarrow>
           length urls < length ?lack
         \<and> api_generateStoryboardImage a (length (trace st) + 2 * length urls)
             (imagePrompt (?lack ! length urls)) (imageSize st) = Rejected err
       | Suspended \<Rightarrow>
           length urls < length ?lack
         \<and> api_generateStoryboardImage a (length (trace st) + 2 * length urls)
             (imagePrompt (?lack ! length urls)) (imageSize st) = Pending
         \<and> loading (snd R) \<noteq> None)"
    using o by (cases "fst R") (simp_all add: bulk_outcome_def st1)
  have st': "st' = (case R of
               (Normal, st2) \<Rightarrow> st2\<lparr>loading := None\<rparr>
             | (Throw err, st2) \<Rightarrow>
                 (st2\<lparr>error := Some (js_or (message err) ''Bulk generation failed'')\<rparr>)
                   \<lparr>loading := None\<rparr>
             | (Suspended, st2) \<Rightarrow> st2)"
    unfolding r using p by (simp add: handleGenerateAllStoryboards_def Let_def R_def st1_def)
  have t': "trace st' = trace (snd R)" and pr': "project st' = project (snd R)"
    and k': "hasApiKey st' = hasApiKey (snd R)"
    unfolding st' by (cases R; cases "fst R"; simp)+
  have fin: "length urls = length ?lack \<longrightarrow> loading st' = None \<and> error st' = error st"
    using c e unfolding st' by (cases R; cases "fst R") auto
  have stop: "length urls < length ?lack \<longrightarrow>
          (\<exists>err. api_generateStoryboardImage a (length (trace st) + 2 * length urls)
                   (imagePrompt (?lack ! length urls)) (imageSize st)
                 = Rejected err
               \<and> error st' = Some (js_or (message err) ''Bulk generation failed'')
               \<and> loading st' = None)
        \<or> (api_generateStoryboardImage a (length (trace st) + 2 * length urls)
                   (imagePrompt (?lack ! length urls)) (imageSize st)
                 = Pending
               \<and> error st' = error st \<and> loading st' \<noteq> None)"
    using c e unfolding st' by (cases R; cases "fst R") auto
  have frame: "\<forall>j < length (scenes p). \<not> lacksImage (scenes p ! j) \<longrightarrow>
          fill urls (scenes p) ! j = scenes p ! j"
    by (simp add: fill_frame)
  have only: "\<forall>j < length (scenes p).
          fill urls (scenes p) ! j = scenes p ! j
        \<or> (\<exists>u \<in> set urls. fill urls (scenes p) ! j = (scenes p ! j)\<lparr>storyboardImageUrl := Some u\<rparr>)"
    using fill_changes_image_only by blast
  note cs = callsOf_bulk_events [OF len, of p "imageSize st" "[]"]
  note ms = commitsOf_bulk_events [of p "imageSize st" "[]" "scenes p" urls, simplified]
  from len calls t t' pr pr' k k' fin stop frame only cs ms length_fill [of urls "scenes p"]
  show ?thesis
    by (intro exI [of _ urls]) (simp only: simp_thms)
qed

section \<open>The theorems at concrete inputs\<close>

theorem final_video_without_image_is_noop_witness:
  "project app_ab = Some project_ab
   \<and> find (\<lambda>s. id_scene s = ''a'') (scenes project_ab) = Some scene_a
   \<and> \<not> truthy (storyboardImageUrl scene_a)
   \<and> handleGenerateFinalVideo (fixed_api Pending Pending Pending Pending) ''a'' app_ab = app_ab
   \<and> find (\<lambda>s. id_scene s = ''zz'') (scenes project_ab) = None
   \<and> handleGenerateFinalVideo (fixed_api Pending Pending Pending Pending) ''zz'' app_ab = app_ab
   \<and> project app_empty = None
   \<and> handleGenerateFinalVideo (fixed_api Pending Pending Pending Pending) ''a'' app_empty = app_empty"
proof -
  have p: "project app_ab = Some project_ab" by (simp add: app_ab_def)
  have fa: "find (\<lambda>s. id_scene s = ''a'') (scenes project_ab) = Some scene_a"
    by (simp add: project_ab_def scene_a_def scene_b_def)
  have fz: "find (\<lambda>s. id_scene s = ''zz'') (scenes project_ab) = None"
    by (simp add: project_ab_def scene_a_def scene_b_def)
  have t: "\<not> truthy (storyboardImageUrl scene_a)" by (simp add: scene_a_def)
  have e: "project app_empty = None" by (simp add: app_empty_def)
  have 1: "handleGenerateFinalVideo (fixed_api Pending Pending Pending Pending) ''a'' app_ab = app_ab"
    using p fa t by (intro final_video_without_image_is_noop) auto
  have 2: "handleGenerateFinalVideo (fixed_api Pending Pending Pending Pending) ''zz'' app_ab = app_ab"
    using p fz by (intro final_video_without_image_is_noop) auto
  have 3: "handleGenerateFinalVideo (fixed_api Pending Pending Pending Pending) ''a'' app_empty = app_empty"
    using e by (intro final_video_without_image_is_noop) auto
  from p fa fz t e 1 2 3 show ?thesis by blast
qed

theorem update_prompt_frame_witness:
  "project app_ab = Some project_ab
   \<and> map_option scenes (project (handleUpdatePrompt ''a'' ''Alice waves slowly.'' app_ab))
       = Some [scene_b, scene_a\<lparr>storyboardPrompt := Some ''Alice waves slowly.''\<rparr>]
   \<and> callsOf (trace (handleUpdatePrompt ''a'' ''Alice waves slowly.'' app_ab)) = callsOf (trace app_ab)"
proof -
  have p: "project app_ab = Some project_ab" by (simp add: app_ab_def)
  have sc: "scenes project_ab = [scene_b, scene_a]" by (simp add: project_ab_def)
  have ids: "id_scene scene_a = ''a''" "id_scene scene_b \<noteq> ''a''"
    by (simp_all add: scene_a_def scene_b_def)
  from update_prompt_frame [OF p, of "''a''" "''Alice waves slowly.''"]
  obtain p' where p': "project (handleUpdatePrompt ''a'' ''Alice waves slowly.'' app_ab) = Some p'"
    and len: "length (scenes p') = length (scenes project_ab)"
    and each: "\<forall>i < length (scenes project_ab).
           (id_scene (scenes project_ab ! i) = ''a'' \<longrightarrow>
              scenes p' ! i = (scenes project_ab ! i)\<lparr>storyboardPrompt := Some ''Alice waves slowly.''\<rparr>)
         \<and> (id_scene (scenes project_ab ! i) \<noteq> ''a'' \<longrightarrow> scenes p' ! i = scenes project_ab ! i)"
    and calls: "callsOf (trace (handleUpdatePrompt ''a'' ''Alice waves slowly.'' app_ab)) = callsOf (trace app_ab)"
    by blast
  from each [rule_format, of 0] ids have s0: "scenes p' ! 0 = scene_b" by (simp add: sc)
  from each [rule_format, of 1] ids
  have s1: "scenes p' ! 1 = scene_a\<lparr>storyboardPrompt := Some ''Alice waves slowly.''\<rparr>"
    by (simp add: sc)
  from len have "length (scenes p') = 2" by (simp add: sc)
  with s0 s1 have "scenes p' = [scene_b, scene_a\<lparr>storyboardPrompt := Some ''Alice waves slowly.''\<rparr>]"
    by (simp add: list_eq_iff_nth_eq less_Suc_eq numeral_2_eq_2)
  with p p' calls show ?thesis by simp
qed

theorem final_video_all_or_nothing_witness:
  "project app_ab = Some project_ab
   \<and> find (\<lambda>s. id_scene s = ''b'') (scenes project_ab) = Some scene_b
   \<and> truthy (storyboardImageUrl scene_b)
   \<and> project (handleGenerateFinalVideo
        (fixed_api Pending Pending (Fulfilled ''blob:video'') (Fulfilled ''blob:audio'')) ''b'' app_ab)
       = Some (project_ab\<lparr>scenes :=
           [scene_b\<lparr>videoUrl := Some ''blob:video'', audioUrl := Some ''blob:audio''\<rparr>, scene_a]\<rparr>)
   \<and> project (handleGenerateFinalVideo
        (fixed_api Pending Pending (Fulfilled ''blob:video'') (Rejected (Error ''No audio data returned''))) ''b'' app_ab)
       = Some project_ab
   \<and> trace (handleGenerateFinalVideo
        (fixed_api Pending Pending (Fulfilled ''blob:video'') (Rejected (Error ''No audio data returned''))) ''b'' app_ab)
       = [Call (GenerateSceneVideo ''Bob nods.'' ''data:image/png;base64,AAAA''),
          Call (GenerateDialogueSpeech ''Hi.'')]"
proof -
  let ?ok = "fixed_api Pending Pending (Fulfilled ''blob:video'') (Fulfilled ''blob:audio'')"
  let ?ko = "fixed_api Pending Pending (Fulfilled ''blob:video'') (Rejected (Error ''No audio data returned''))"
  have p: "project app_ab = Some project_ab" by (simp add: app_ab_def)
  have f: "find (\<lambda>s. id_scene s = ''b'') (scenes project_ab) = Some scene_b"
    by (simp add: project_ab_def scene_b_def)
  have t: "truthy (storyboardImageUrl scene_b)" by (simp add: scene_b_def)
  have tr: "trace app_ab = []" by (simp add: app_ab_def)
  have v1: "api_generateSceneVideo ?ok (length (trace app_ab))
                  (or_else (storyboardPrompt scene_b) (description scene_b))
                  (or_else (storyboardImageUrl scene_b) []) = Fulfilled ''blob:video''"
    by (simp add: fixed_api_def respond3_def)
  have u1: "api_generateDialogueSpeech ?ok (length (trace app_ab) + 1) (dialogue scene_b)
              = Fulfilled ''blob:audio''"
    by (simp add: fixed_api_def respond2_def)
  have v2: "api_generateSceneVideo ?ko (length (trace app_ab))
                  (or_else (storyboardPrompt scene_b) (description scene_b))
                  (or_else (storyboardImageUrl scene_b) []) = Fulfilled ''blob:video''"
    by (simp add: fixed_api_def respond3_def)
  have u2: "api_generateDialogueSpeech ?ko (length (trace app_ab) + 1) (dialogue scene_b)
              = Rejected (Error ''No audio data returned'')"
    by (simp add: fixed_api_def respond2_def)
  from final_video_all_or_nothing [OF p f t v1 u1 refl]
  have a: "project (handleGenerateFinalVideo ?ok ''b'' app_ab)
       = Some (project_ab\<lparr>scenes :=
           [scene_b\<lparr>videoUrl := Some ''blob:video'', audioUrl := Some ''blob:audio''\<rparr>, scene_a]\<rparr>)"
    by (simp add: project_ab_def scene_a_def scene_b_def)
  note ko = final_video_all_or_nothing [OF p f t v2 u2 refl]
  from ko have c: "take (length (trace app_ab) + 2) (trace (handleGenerateFinalVideo ?ko ''b'' app_ab))
           = trace app_ab @ [Call (GenerateSceneVideo (or_else (storyboardPrompt scene_b) (description scene_b))
                                (or_else (storyboardImageUrl scene_b) [])),
                         Call (GenerateDialogueSpeech (dialogue scene_b))]"
    by blast
  from ko have "project (handleGenerateFinalVideo ?ko ''b'' app_ab) = project app_ab
           \<and> drop (length (trace app_ab) + 2) (trace (handleGenerateFinalVideo ?ko ''b'' app_ab)) = []"
    by blast
  then have b: "project (handleGenerateFinalVideo ?ko ''b'' app_ab) = Some project_ab"
    and d: "drop (length (trace app_ab) + 2) (trace (handleGenerateFinalVideo ?ko ''b'' app_ab)) = []"
    by (simp_all only: p)
  have "trace (handleGenerateFinalVideo ?ko ''b'' app_ab)
          = take (length (trace app_ab) + 2) (trace (handleGenerateFinalVideo ?ko ''b'' app_ab))
            @ drop (length (trace app_ab) + 2) (trace (handleGenerateFinalVideo ?ko ''b'' app_ab))"
    by (simp only: append_take_drop_id)
  then have e: "trace (handleGenerateFinalVideo ?ko ''b'' app_ab)
             = [Call (GenerateSceneVideo ''Bob nods.'' ''data:image/png;base64,AAAA''),
                Call (GenerateDialogueSpeech ''Hi.'')]"
    unfolding c d by (simp add: tr scene_b_def or_else_def)
  from p f t a b e show ?thesis by blast
qed

theorem final_video_session_expiry_witness:
  "project app_ab = Some project_ab
   \<and> find (\<lambda>s. id_scene s = ''b'') (scenes project_ab) = Some scene_b
   \<and> truthy (storyboardImageUrl scene_b)
   \<and> message (Error ''Requested entity was not found.'')
        = [] @ ''Requested entity was not found'' @ ''.''
   \<and> hasApiKey app_ab
   \<and> \<not> hasApiKey (handleGenerateFinalVideo
        (fixed_api Pending Pending (Rejected (Error ''Requested entity was not found.''))
           (Fulfilled ''blob:audio'')) ''b'' app_ab)
   \<and> error (handleGenerateFinalVideo
        (fixed_api Pending Pending (Rejected (Error ''Requested entity was not found.''))
           (Fulfilled ''blob:audio'')) ''b'' app_ab)
       = Some ''API Session expired. Please re-select your key.''
   \<and> \<not> includes_str (message (Error ''No audio data returned'')) ''Requested entity was not found''
   \<and> hasApiKey (handleGenerateFinalVideo
        (fixed_api Pending Pending Pending (Rejected (Error ''No audio data returned''))) ''b'' app_ab)
   \<and> error (handleGenerateFinalVideo
        (fixed_api Pending Pending Pending (Rejected (Error ''No audio data returned''))) ''b'' app_ab)
       = Some ''No audio data returned''"
proof -
  let ?gone = "fixed_api Pending Pending (Rejected (Error ''Requested entity was not found.''))
           (Fulfilled ''blob:audio'')"
  let ?mute = "fixed_api Pending Pending Pending (Rejected (Error ''No audio data returned''))"
  have p: "project app_ab = Some project_ab" by (simp add: app_ab_def)
  have f: "find (\<lambda>s. id_scene s = ''b'') (scenes project_ab) = Some scene_b"
    by (simp add: project_ab_def scene_b_def)
  have t: "truthy (storyboardImageUrl scene_b)" by (simp add: scene_b_def)
  have k: "hasApiKey app_ab" by (simp add: app_ab_def)
  have w1: "Promise_all (videoSettlesFirst ?gone (length (trace app_ab)))
              (api_generateSceneVideo ?gone (length (trace app_ab))
                  (or_else (storyboardPrompt scene_b) (description scene_b))
                  (or_else (storyboardImageUrl scene_b) []))
              (api_generateDialogueSpeech ?gone (length (trace app_ab) + 1) (dialogue scene_b))
            = Rejected (Error ''Requested entity was not found.'')"
    by (simp add: fixed_api_def respond_def respond2_def respond3_def)
  have w2: "Promise_all (videoSettlesFirst ?mute (length (trace app_ab)))
              (api_generateSceneVideo ?mute (length (trace app_ab))
                  (or_else (storyboardPrompt scene_b) (description scene_b))
                  (or_else (storyboardImageUrl scene_b) []))
              (api_generateDialogueSpeech ?mute (length (trace app_ab) + 1) (dialogue scene_b))
            = Rejected (Error ''No audio data returned'')"
    by (simp add: fixed_api_def respond_def respond2_def respond3_def)
  have m1: "message (Error ''Requested entity was not found.'')
        = [] @ ''Requested entity was not found'' @ ''.''" by simp
  then have ex: "\<exists>pre post. message (Error ''Requested entity was not found.'')
        = pre @ ''Requested entity was not found'' @ post" by blast
  have m2: "\<not> includes_str (message (Error ''No audio data returned'')) ''Requested entity was not found''"
    by simp
  then have nex: "\<nexists>pre post. message (Error ''No audio data returned'')
        = pre @ ''Requested entity was not found'' @ post"
    unfolding includes_str_iff .
  from final_video_session_expiry [OF p f t w1 refl] ex
  have a: "\<not> hasApiKey (handleGenerateFinalVideo ?gone ''b'' app_ab)"
    and b: "error (handleGenerateFinalVideo ?gone ''b'' app_ab)
       = Some ''API Session expired. Please re-select your key.''"
    by blast+
  from final_video_session_expiry [OF p f t w2 refl] nex k
  have c: "hasApiKey (handleGenerateFinalVideo ?mute ''b'' app_ab)"
    and d: "error (handleGenerateFinalVideo ?mute ''b'' app_ab) = Some ''No audio data returned''"
    by simp_all
  from p f t m1 k a b m2 c d show ?thesis by blast
qed

theorem script_submit_scenes_witness:
  "trim (scriptInput app_empty) \<noteq> []
   \<and> api_analyzeScript (fixed_api (Fulfilled [segment_zero, segment_zero\<lparr>seg_order := Some 7\<rparr>,
                                                segment_zero\<lparr>seg_order := None\<rparr>])
         Pending Pending Pending) (length (trace app_empty)) (scriptInput app_empty)
       = Fulfilled [segment_zero, segment_zero\<lparr>seg_order := Some 7\<rparr>, segment_zero\<lparr>seg_order := None\<rparr>]
   \<and> (\<exists>ss. project (handleScriptSubmit
                (fixed_api (Fulfilled [segment_zero, segment_zero\<lparr>seg_order := Some 7\<rparr>,
                                       segment_zero\<lparr>seg_order := None\<rparr>])
                   Pending Pending Pending) app_empty)
            = Some \<lparr>title = ''My New Animation'', script = ''Alice waves.'', scenes = ss\<rparr>
         \<and> length ss = 3
         \<and> map order ss = [1, 7, 3]
         \<and> map isApproved ss = [False, False, False]
         \<and> map id_scene ss = [[], ''x'', ''xx'']
         \<and> distinct (map id_scene ss))"
proof -
  let ?segs = "[segment_zero, segment_zero\<lparr>seg_order := Some 7\<rparr>, segment_zero\<lparr>seg_order := None\<rparr>]"
  let ?a = "fixed_api (Fulfilled ?segs) Pending Pending Pending"
  have t: "trim (scriptInput app_empty) \<noteq> []"
    by (simp add: app_empty_def trim_def isWhiteSpace_def)
  have an: "api_analyzeScript ?a (length (trace app_empty)) (scriptInput app_empty) = Fulfilled ?segs"
    by (simp add: fixed_api_def respond2_def)
  from script_submit_scenes [OF t an refl]
  obtain ss where p: "project (handleScriptSubmit ?a app_empty)
        = Some \<lparr>title = ''My New Animation'', script = scriptInput app_empty, scenes = ss\<rparr>"
    and len: "length ss = length ?segs"
    and each: "\<forall>i < length ?segs.
            id_scene (ss ! i) = randomUUID ?a (uuidsDrawn app_empty + i)
          \<and> isApproved (ss ! i) = False
          \<and> order (ss ! i) = (case seg_order (?segs ! i) of
                                 None \<Rightarrow> int i + 1
                               | Some n \<Rightarrow> if n = 0 then int i + 1 else n)"
    and d: "distinct (map id_scene ss)"
    by blast
  have l3: "length ss = 3" using len by simp
  have e0: "id_scene (ss ! 0) = [] \<and> isApproved (ss ! 0) = False \<and> order (ss ! 0) = 1"
    using each [rule_format, of 0] by (simp add: randomUUID_fixed_api app_empty_def segment_zero_def)
  have e1: "id_scene (ss ! 1) = ''x'' \<and> isApproved (ss ! 1) = False \<and> order (ss ! 1) = 7"
    using each [rule_format, of 1] by (simp add: randomUUID_fixed_api app_empty_def segment_zero_def)
  have e2: "id_scene (ss ! 2) = ''xx'' \<and> isApproved (ss ! 2) = False \<and> order (ss ! 2) = 3"
    using each [rule_format, of 2]
    by (simp add: randomUUID_fixed_api app_empty_def segment_zero_def numeral_2_eq_2)
  from l3 obtain s0 s1 s2 where ss: "ss = [s0, s1, s2]"
    by (auto simp: numeral_3_eq_3 length_Suc_conv)
  have o: "map order ss = [1, 7, 3]"
    using e0 e1 e2 by (simp add: ss)
  have ap: "map isApproved ss = [False, False, False]"
    using e0 e1 e2 by (simp add: ss)
  have ids: "map id_scene ss = [[], ''x'', ''xx'']"
    using e0 e1 e2 by (simp add: ss)
  have "scriptInput app_empty = ''Alice waves.''" by (simp add: app_empty_def)
  with p have p': "project (handleScriptSubmit ?a app_empty)
        = Some \<lparr>title = ''My New Animation'', script = ''Alice waves.'', scenes = ss\<rparr>" by simp
  from p' l3 o ap ids d
  have ex: "\<exists>ss. project (handleScriptSubmit ?a app_empty)
            = Some \<lparr>title = ''My New Animation'', script = ''Alice waves.'', scenes = ss\<rparr>
         \<and> length ss = 3
         \<and> map order ss = [1, 7, 3]
         \<and> map isApproved ss = [False, False, False]
         \<and> map id_scene ss = [[], ''x'', ''xx'']
         \<and> distinct (map id_scene ss)"
    by (intro exI [of _ ss]) (simp only: simp_thms)
  show ?thesis by (rule conjI [OF t conjI [OF an ex]])
qed

theorem chat_history_never_empty_witness:
  "[] \<notin> set (sent chat_empty)
   \<and> trim (input chat_empty) \<noteq> []
   \<and> respond2 (Fulfilled (Some ''Hi!'')) (length (sent chat_empty)) (input chat_empty)
        = Fulfilled (Some ''Hi!'')
   \<and> handleSend (respond2 (Fulfilled (Some ''Hi!''))) chat_empty
        = \<lparr> messages = [\<lparr>role = RoleUser, text_msg = ''hello''\<rparr>,
                        \<lparr>role = RoleModel, text_msg = ''Hi!''\<rparr>],
            input = [], isTyping = False,
            sent = [[\<lparr>role = RoleUser, text_msg = ''hello''\<rparr>]] \<rparr>
   \<and> [] \<notin> set (sent (handleSend (respond2 (Fulfilled (Some ''Hi!''))) chat_empty))"
proof -
  let ?f = "respond2 (Fulfilled (Some ''Hi!'')) :: nat \<Rightarrow> string \<Rightarrow> string option promise"
  have h: "\<forall>h \<in> set (sent chat_empty). h \<noteq> []" by (simp add: chat_empty_def)
  then have h0: "[] \<notin> set (sent chat_empty)" by blast
  have t: "trim (input chat_empty) \<noteq> []"
    by (simp add: chat_empty_def trim_def isWhiteSpace_def)
  have a: "?f (length (sent chat_empty)) (input chat_empty) = Fulfilled (Some ''Hi!'')"
    by (simp add: respond2_def)
  note c = chat_history_never_empty [where sendMessage = ?f and st = chat_empty]
  from c t have "handleSend ?f chat_empty =
          (case ?f (length (sent chat_empty)) (input chat_empty) of
             Pending \<Rightarrow>
               chat_empty\<lparr>messages := messages chat_empty @ [\<lparr>role = RoleUser, text_msg = input chat_empty\<rparr>],
                  input := [], isTyping := True,
                  sent := sent chat_empty @ [messages chat_empty @ [\<lparr>role = RoleUser, text_msg = input chat_empty\<rparr>]]\<rparr>
           | Fulfilled t \<Rightarrow>
               chat_empty\<lparr>messages := messages chat_empty
                     @ [\<lparr>role = RoleUser, text_msg = input chat_empty\<rparr>,
                        \<lparr>role = RoleModel, text_msg = or_else t ''Sorry, I couldn't process that.''\<rparr>],
                  input := [], isTyping := False,
                  sent := sent chat_empty @ [messages chat_empty @ [\<lparr>role = RoleUser, text_msg = input chat_empty\<rparr>]]\<rparr>
           | Rejected e \<Rightarrow>
               chat_empty\<lparr>messages := messages chat_empty
                     @ [\<lparr>role = RoleUser, text_msg = input chat_empty\<rparr>,
                        \<lparr>role = RoleModel, text_msg = ''Error: Could not reach the AI assistant.''\<rparr>],
                  input := [], isTyping := False,
                  sent := sent chat_empty @ [messages chat_empty @ [\<lparr>role = RoleUser, text_msg = input chat_empty\<rparr>]]\<rparr>)"
    by blast
  then have r: "handleSend ?f chat_empty
        = \<lparr> messages = [\<lparr>role = RoleUser, text_msg = ''hello''\<rparr>,
                        \<lparr>role = RoleModel, text_msg = ''Hi!''\<rparr>],
            input = [], isTyping = False,
            sent = [[\<lparr>role = RoleUser, text_msg = ''hello''\<rparr>]] \<rparr>"
    by (simp add: a) (simp add: chat_empty_def or_else_def)
  from c h have "\<forall>h \<in> set (sent (handleSend ?f chat_empty)). h \<noteq> []" by blast
  then have n: "[] \<notin> set (sent (handleSend ?f chat_empty))" by blast
  show ?thesis by (rule conjI [OF h0 conjI [OF t conjI [OF a conjI [OF r n]]]])
qed

theorem bulk_generation_sequential_witness:
  "project app_ab = Some project_ab
   \<and> filter lacksImage (scenes project_ab) = [scene_a]
   \<and> trace (handleGenerateAllStoryboards
         (fixed_api Pending (Fulfilled ''data:image/png;base64,BBBB'') Pending Pending) app_ab)
       = [Call (GenerateStoryboardImage ''Alice waves.'' Size1K),
          Commit (Some (project_ab\<lparr>scenes :=
             [scene_b, scene_a\<lparr>storyboardImageUrl := Some ''data:image/png;base64,BBBB''\<rparr>]\<rparr>))]
   \<and> project (handleGenerateAllStoryboards
         (fixed_api Pending (Fulfilled ''data:image/png;base64,BBBB'') Pending Pending) app_ab)
       = Some (project_ab\<lparr>scenes :=
             [scene_b, scene_a\<lparr>storyboardImageUrl := Some ''data:image/png;base64,BBBB''\<rparr>]\<rparr>)
   \<and> loading (handleGenerateAllStoryboards
         (fixed_api Pending (Fulfilled ''data:image/png;base64,BBBB'') Pending Pending) app_ab) = None"
proof -
  let ?a = "fixed_api Pending (Fulfilled ''data:image/png;base64,BBBB'') Pending Pending"
  let ?st' = "handleGenerateAllStoryboards ?a app_ab"
  have p: "project app_ab = Some project_ab" by (simp add: app_ab_def)
  have sc: "scenes project_ab = [scene_b, scene_a]" by (simp add: project_ab_def)
  have la: "lacksImage scene_a" and lb: "\<not> lacksImage scene_b"
    by (simp_all add: lacksImage_def scene_a_def scene_b_def)
  then have lack: "filter lacksImage (scenes project_ab) = [scene_a]" by (simp add: sc)
  have pa: "imagePrompt scene_a = ''Alice waves.''"
    by (simp add: imagePrompt_def or_else_def scene_a_def)
  have tr: "trace app_ab = []" and sz: "imageSize app_ab = Size1K" by (simp_all add: app_ab_def)
  have api: "\<And>t q z. api_generateStoryboardImage ?a t q z = Fulfilled ''data:image/png;base64,BBBB''"
    by (simp add: fixed_api_def respond3_def)
  from bulk_generation_sequential [OF p refl, of ?a]
  obtain urls where len: "length urls \<le> length (filter lacksImage (scenes project_ab))"
    and calls: "\<forall>n < length urls.
          api_generateStoryboardImage ?a (length (trace app_ab) + 2 * n)
            (imagePrompt (filter lacksImage (scenes project_ab) ! n)) (imageSize app_ab) = Fulfilled (urls ! n)"
    and t: "trace ?st' = trace app_ab @ bulk_events project_ab (imageSize app_ab) [] (scenes project_ab) urls"
    and pr: "project ?st' = Some (project_ab\<lparr>scenes := fill urls (scenes project_ab)\<rparr>)"
    and fin: "length urls = length (filter lacksImage (scenes project_ab)) \<longrightarrow>
          loading ?st' = None \<and> error ?st' = error app_ab"
    and stop: "length urls < length (filter lacksImage (scenes project_ab)) \<longrightarrow>
          (\<exists>err. api_generateStoryboardImage ?a (length (trace app_ab) + 2 * length urls)
                   (imagePrompt (filter lacksImage (scenes project_ab) ! length urls)) (imageSize app_ab)
                 = Rejected err
               \<and> error ?st' = Some (js_or (message err) ''Bulk generation failed'')
               \<and> loading ?st' = None)
        \<or> (api_generateStoryboardImage ?a (length (trace app_ab) + 2 * length urls)
                   (imagePrompt (filter lacksImage (scenes project_ab) ! length urls)) (imageSize app_ab)
                 = Pending
               \<and> error ?st' = error app_ab \<and> loading ?st' \<noteq> None)"
    by blast
  from stop have "\<not> length urls < length (filter lacksImage (scenes project_ab))"
    by (auto simp: api)
  with len have l1: "length urls = 1" by (cases urls) (simp_all add: lack)
  with calls have "urls ! 0 = ''data:image/png;base64,BBBB''" by (simp add: api)
  with l1 have urls: "urls = [''data:image/png;base64,BBBB'']"
    by (cases urls) simp_all
  have 1: "trace ?st' = [Call (GenerateStoryboardImage ''Alice waves.'' Size1K),
          Commit (Some (project_ab\<lparr>scenes :=
             [scene_b, scene_a\<lparr>storyboardImageUrl := Some ''data:image/png;base64,BBBB''\<rparr>]\<rparr>))]"
    unfolding t urls
    by (simp add: tr sz bulk_events_def sc la lb pa)
  have 2: "project ?st' = Some (project_ab\<lparr>scenes :=
             [scene_b, scene_a\<lparr>storyboardImageUrl := Some ''data:image/png;base64,BBBB''\<rparr>]\<rparr>)"
    unfolding pr urls by (simp add: sc la lb)
  from fin l1 have 3: "loading ?st' = None" by (simp add: lack)
  from p lack 1 2 3 show ?thesis by blast
qed

text \<open>
  C6 as stated fails when the provider returns the order 0: the value is present, and the
  scene gets the order 1, its index plus one.
\<close>

theorem script_submit_order_zero:
  "seg_order segment_zero = Some 0
   \<and> map_option (map order \<circ> scenes)
        (project (handleScriptSubmit (fixed_api (Fulfilled [segment_zero]) Pending Pending Pending) app_empty))
       = Some [1]
   \<and> map_option (map order \<circ> scenes)
        (project (handleScriptSubmit (fixed_api (Fulfilled [segment_zero]) Pending Pending Pending) app_empty))
       \<noteq> Some [0]"
proof -
  let ?a = "fixed_api (Fulfilled [segment_zero]) Pending Pending Pending"
  have t: "trim (scriptInput app_empty) \<noteq> []"
    by (simp add: app_empty_def trim_def isWhiteSpace_def)
  have an: "api_analyzeScript ?a (length (trace app_empty)) (scriptInput app_empty)
              = Fulfilled [segment_zero]"
    by (simp add: fixed_api_def respond2_def)
  have z: "seg_order segment_zero = Some 0" by (simp add: segment_zero_def)
  have "project (handleScriptSubmit ?a app_empty)
      = Some \<lparr>title = ''My New Animation'', script = scriptInput app_empty,
              scenes = mapScenes (randomUUID ?a) (uuidsDrawn app_empty) 0 [segment_zero]\<rparr>"
    using t an by (simp add: handleScriptSubmit_def Let_def logCall_def setProject_def)
  then have m: "map_option (map order \<circ> scenes) (project (handleScriptSubmit ?a app_empty)) = Some [1]"
    by (simp add: z)
  show ?thesis unfolding m using z by simp
qed

end
